theory Spec2Isabelle
  imports Complex_Main "HOL-Library.Log_Nat"
begin


section \<open>Strings and regular expressions of the host language\<close>

text \<open>
  The payslip service (\<^verbatim>\<open>Backend/server.js\<close>) validates its inputs with JavaScript regular
  expressions. Strings are modelled as HOL strings; a character stands for a code unit in
  the range 0..255. The character classes of the source are:
  \<^item> \<^verbatim>\<open>\d\<close>: the ten ASCII digits;
  \<^item> \<^verbatim>\<open>[A-Z]\<close>, \<^verbatim>\<open>[a-z]\<close>: ranges of code units;
  \<^item> \<^verbatim>\<open>\s\<close>: the white space and line terminator code units, which in this range are
    TAB (9), LF (10), VT (11), FF (12), CR (13), SPACE (32) and NBSP (160).
\<close>

definition is_digit :: "char \<Rightarrow> bool" where
  "is_digit c = (48 \<le> (of_char c :: nat) \<and> (of_char c :: nat) \<le> 57)"

definition is_space :: "char \<Rightarrow> bool" where
  "is_space c = ((of_char c :: nat) \<in> {9, 10, 11, 12, 13, 32, 160})"

definition in_range :: "char \<Rightarrow> char \<Rightarrow> char \<Rightarrow> bool" where
  "in_range lo hi c = ((of_char lo :: nat) \<le> of_char c \<and> (of_char c :: nat) \<le> of_char hi)"

definition is_alpha :: "char \<Rightarrow> bool" where
  "is_alpha c = (in_range CHR ''A'' CHR ''Z'' c \<or> in_range CHR ''a'' CHR ''z'' c)"

text \<open>
  The fragment of the regular expression syntax that the source uses: literals, classes,
  sequence, alternative, the star and the negative lookahead \<^verbatim>\<open>(?!r)\<close>. Every
  expression of the source is anchored (\<^verbatim>\<open>^...$\<close>), so \<^verbatim>\<open>regex.test(s)\<close> asks
  whether the whole string matches.
\<close>

datatype regex =
    Eps
  | Chr char
  | Range char char
  | Digit
  | Space
  | Cat regex regex
  | Alt regex regex
  | Star regex
  | NegLookahead regex

fun one_char :: "(char \<Rightarrow> bool) \<Rightarrow> string \<Rightarrow> string list" where
  "one_char p [] = []"
| "one_char p (c # cs) = (if p c then [cs] else [])"

text \<open>
  \<open>rx_match r s\<close> lists what can remain of \<open>s\<close> after \<open>r\<close> has matched a prefix of it,
  one entry for each way the backtracking matcher can take. An iteration of the star
  that consumes nothing is not repeated.
\<close>

fun rx_match :: "regex \<Rightarrow> string \<Rightarrow> string list" where
  "rx_match Eps s = [s]"
| "rx_match (Chr c) s = one_char (\<lambda>x. x = c) s"
| "rx_match (Range lo hi) s = one_char (in_range lo hi) s"
| "rx_match Digit s = one_char is_digit s"
| "rx_match Space s = one_char is_space s"
| "rx_match (Cat a b) s = concat (map (rx_match b) (rx_match a s))"
| "rx_match (Alt a b) s = rx_match a s @ rx_match b s"
| "rx_match (Star a) s =
     s # concat (map (\<lambda>t. if length t < length s then rx_match (Star a) t else [])
                     (rx_match a s))"
| "rx_match (NegLookahead a) s = (if rx_match a s = [] then [s] else [])"

declare rx_match.simps(8) [simp del]

definition rx_test :: "regex \<Rightarrow> string \<Rightarrow> bool" where
  "rx_test r s = ([] \<in> set (rx_match r s))"

fun cats :: "regex list \<Rightarrow> regex" where
  "cats [] = Eps"
| "cats [r] = r"
| "cats (r # rs) = Cat r (cats rs)"

definition lit :: "string \<Rightarrow> regex" where
  "lit s = cats (map Chr s)"

definition times :: "nat \<Rightarrow> regex \<Rightarrow> regex" where
  "times n r = cats (replicate n r)"

fun opts :: "nat \<Rightarrow> regex \<Rightarrow> regex" where
  "opts 0 r = Eps"
| "opts (Suc n) r = Alt (Cat r (opts n r)) Eps"

definition between :: "nat \<Rightarrow> nat \<Rightarrow> regex \<Rightarrow> regex" where
  "between lo hi r = Cat (times lo r) (opts (hi - lo) r)"

definition Plus :: "regex \<Rightarrow> regex" where
  "Plus r = Cat r (Star r)"

definition alpha :: regex where
  "alpha = Alt (Range CHR ''A'' CHR ''Z'') (Range CHR ''a'' CHR ''z'')"

text \<open>\<^verbatim>\<open>String.prototype.trim\<close>: white space is removed from both ends.\<close>

definition trim :: "string \<Rightarrow> string" where
  "trim s = rev (dropWhile is_space (rev (dropWhile is_space s)))"

section \<open>Field validators\<close>

text \<open>\<^verbatim>\<open>/^ATS0(?!000)\d{3}$/\<close>\<close>

definition employee_id_regex :: regex where
  "employee_id_regex = cats [lit ''ATS0'', NegLookahead (lit ''000''), times 3 Digit]"

definition validateEmployeeId :: "string \<Rightarrow> bool" where
  "validateEmployeeId ident = rx_test employee_id_regex ident"

text \<open>\<^verbatim>\<open>/^[A-Z]{5}\d{4}[A-Z]$/\<close>\<close>

definition pan_regex :: regex where
  "pan_regex = cats [times 5 (Range CHR ''A'' CHR ''Z''), times 4 Digit, Range CHR ''A'' CHR ''Z'']"

definition validatePAN :: "string \<Rightarrow> bool" where
  "validatePAN pan = rx_test pan_regex pan"

text \<open>
  \<^verbatim>\<open>/^[A-Za-z]+(?:\s[A-Za-z]+)*$/\<close>, tested on the trimmed input; the letters are counted
  on the input as given (\<^verbatim>\<open>input.match(/[A-Za-z]/g)\<close> returns one entry for each letter).
\<close>

definition name_regex :: regex where
  "name_regex = Cat (Plus alpha) (Star (Cat Space (Plus alpha)))"

definition validateAlphabeticWithSpaces :: "string \<Rightarrow> bool" where
  "validateAlphabeticWithSpaces input =
     (let alphaCount = length (filter is_alpha input);
          trimmedInput = trim input
      in length trimmedInput \<ge> 5 \<and> length trimmedInput \<le> 30
         \<and> rx_test name_regex trimmedInput \<and> alphaCount \<ge> 5)"

text \<open>\<^verbatim>\<open>/^\d{9,16}$/\<close>, tested on the trimmed input.\<close>

definition bank_account_regex :: regex where
  "bank_account_regex = between 9 16 Digit"

definition validateBankAccount :: "string \<Rightarrow> bool" where
  "validateBankAccount account = rx_test bank_account_regex (trim account)"

definition validateComponentName :: "string \<Rightarrow> bool" where
  "validateComponentName name = validateAlphabeticWithSpaces name"

text \<open>
  The property the specification words as "letters separated by single spaces (no
  leading, trailing, or double spaces)", for a separator class \<open>sep\<close>.
\<close>

fun no_double :: "(char \<Rightarrow> bool) \<Rightarrow> string \<Rightarrow> bool" where
  "no_double sep (a # b # cs) = (\<not> (sep a \<and> sep b) \<and> no_double sep (b # cs))"
| "no_double sep cs = True"

definition letters_single_sep :: "(char \<Rightarrow> bool) \<Rightarrow> string \<Rightarrow> bool" where
  "letters_single_sep sep t =
     (t \<noteq> [] \<and> list_all (\<lambda>c. is_alpha c \<or> sep c) t
      \<and> \<not> sep (hd t) \<and> \<not> sep (last t) \<and> no_double sep t)"

definition is_blank :: "char \<Rightarrow> bool" where
  "is_blank c = (c = CHR '' '')"

text \<open>
  A two-state acceptor for the language of \<open>name_regex\<close>; the state tells whether the
  string may end here.
\<close>

fun accept :: "bool \<Rightarrow> string \<Rightarrow> bool" where
  "accept st [] = st"
| "accept st (c # cs) =
     (if is_alpha c then accept True cs
      else if is_space c \<and> st then accept False cs
      else False)"

section \<open>Period keys, numbers written in digits, and the host language's dates\<close>

text \<open>\<^verbatim>\<open>s.split('-')\<close>: the pieces between the dashes; a string without a dash is one piece.\<close>

fun split_dash :: "string \<Rightarrow> string list" where
  "split_dash [] = [[]]"
| "split_dash (c # cs) =
     (if c = CHR ''-'' then [] # split_dash cs
      else (case split_dash cs of p # ps \<Rightarrow> (c # p) # ps | [] \<Rightarrow> [[c]]))"

definition digit_val :: "char \<Rightarrow> nat" where
  "digit_val c = of_char c - 48"

definition dec_value :: "string \<Rightarrow> nat" where
  "dec_value s = foldl (\<lambda>a c. 10 * a + digit_val c) 0 s"

text \<open>
  \<^verbatim>\<open>Number(s)\<close> and \<^verbatim>\<open>parseInt(s)\<close> agree on a string of one to fifteen decimal digits:
  both give its decimal value, exactly. Every other string is outside the modelled
  fragment (\<open>None\<close>); the period keys that the table's check constraint admits are
  inside it.
\<close>

definition Number_str :: "string \<Rightarrow> int option" where
  "Number_str s =
     (if s \<noteq> [] \<and> length s \<le> 15 \<and> list_all is_digit s then Some (int (dec_value s)) else None)"


text \<open>
  A \<^verbatim>\<open>Date\<close> built from local-time components and read back in local time, reduced to
  its calendar fields: the full year, the month index (0 is January) and the day of the
  month. The leap year rule is that of the language standard (\<open>DaysInYear\<close>).
\<close>

record js_date =
  fullYear :: int
  monthIndex :: int
  dayOfMonth :: int

definition DaysInYear :: "int \<Rightarrow> int" where
  "DaysInYear y =
     (if y mod 4 \<noteq> 0 then 365
      else if y mod 100 \<noteq> 0 then 366
      else if y mod 400 \<noteq> 0 then 365
      else 366)"

definition InLeapYear :: "int \<Rightarrow> bool" where
  "InLeapYear y = (DaysInYear y = 366)"

definition month_length :: "int \<Rightarrow> int \<Rightarrow> int" where
  "month_length y m =
     (if m = 1 then (if InLeapYear y then 29 else 28)
      else if m \<in> {3, 5, 8, 10} then 30
      else 31)"

definition prev_day :: "js_date \<Rightarrow> js_date" where
  "prev_day dt =
     (if dayOfMonth dt > 1 then dt\<lparr>dayOfMonth := dayOfMonth dt - 1\<rparr>
      else if monthIndex dt > 0
        then \<lparr>fullYear = fullYear dt, monthIndex = monthIndex dt - 1,
              dayOfMonth = month_length (fullYear dt) (monthIndex dt - 1)\<rparr>
      else \<lparr>fullYear = fullYear dt - 1, monthIndex = 11, dayOfMonth = 31\<rparr>)"

definition next_day :: "js_date \<Rightarrow> js_date" where
  "next_day dt =
     (if dayOfMonth dt < month_length (fullYear dt) (monthIndex dt)
        then dt\<lparr>dayOfMonth := dayOfMonth dt + 1\<rparr>
      else if monthIndex dt < 11
        then \<lparr>fullYear = fullYear dt, monthIndex = monthIndex dt + 1, dayOfMonth = 1\<rparr>
      else \<lparr>fullYear = fullYear dt + 1, monthIndex = 0, dayOfMonth = 1\<rparr>)"

text \<open>
  \<^verbatim>\<open>new Date(year, month, date)\<close>. A year from 0 to 99 means 1900 + year. Months beyond
  the year carry into the year; the date counts days from the first of that month, so
  date 0 is the day before it. The model covers years 0..200000, months -12..12000 and
  dates 0..31 (\<open>None\<close> outside), where the time value is in range.
\<close>

definition Date_local :: "int \<Rightarrow> int \<Rightarrow> int \<Rightarrow> js_date option" where
  "Date_local year month date =
     (if 0 \<le> year \<and> year \<le> 200000 \<and> -12 \<le> month \<and> month \<le> 12000
         \<and> 0 \<le> date \<and> date \<le> 31
      then
        (let yr = (if 0 \<le> year \<and> year \<le> 99 then 1900 + year else year);
             first = \<lparr>fullYear = yr + month div 12, monthIndex = month mod 12, dayOfMonth = 1\<rparr>
         in Some (if date \<ge> 1 then (next_day ^^ nat (date - 1)) first
                  else (prev_day ^^ nat (1 - date)) first))
      else None)"

definition getDate :: "js_date \<Rightarrow> int" where
  "getDate dt = dayOfMonth dt"




text \<open>
  \<^verbatim>\<open>getDaysInMonth\<close>: day 0 of the month after the given one.
  \<open>None\<close>: the key is outside the modelled fragment.
\<close>

definition getDaysInMonth :: "string \<Rightarrow> int option" where
  "getDaysInMonth monthYear =
     (case map Number_str (split_dash monthYear) of
        Some year # Some month # _ \<Rightarrow>
          (case Date_local year month 0 of
             Some d \<Rightarrow> Some (getDate d)
           | None \<Rightarrow> None)
      | _ \<Rightarrow> None)"

text \<open>
  The calendar as the specification words it: the number of days of month \<open>m\<close> (1 to 12)
  of year \<open>y\<close> in the Gregorian calendar.
\<close>

definition leap_year :: "int \<Rightarrow> bool" where
  "leap_year y = (y mod 4 = 0 \<and> (y mod 100 \<noteq> 0 \<or> y mod 400 = 0))"

definition calendar_days :: "int \<Rightarrow> int \<Rightarrow> int" where
  "calendar_days y m =
     (if m = 2 then (if leap_year y then 29 else 28)
      else if m = 4 \<or> m = 6 \<or> m = 9 \<or> m = 11 then 30
      else 31)"

section \<open>Numbers of the host language and the loss-of-pay deduction\<close>

text \<open>
  A number of the host language is a double: not-a-number, an infinity, or a finite
  value. \<open>Fin x\<close> stands for the finite double whose value is the rational \<open>x\<close>; the two
  zeros are both \<open>Fin 0\<close> (they are equal under \<^verbatim>\<open>===\<close>, and the function below never
  divides by a zero).
\<close>

datatype jsnum = NaN | PosInf | NegInf | Fin rat




definition isNaN :: "jsnum \<Rightarrow> bool" where
  "isNaN x = (x = NaN)"

definition js_negative :: "jsnum \<Rightarrow> bool" where
  "js_negative x = (case x of NegInf \<Rightarrow> True | Fin a \<Rightarrow> a < 0 | _ \<Rightarrow> False)"







section \<open>Values of the host language\<close>

text \<open>
  What \<^verbatim>\<open>JSON.parse\<close> and the query parser deliver: \<^verbatim>\<open>null\<close>, booleans, numbers
  (a number too large for a double is read as an infinite one), strings, arrays and
  plain objects (a list of keys and values; a key given twice has its last value).
  \<open>Undefined\<close> is the value of a field that is not there: the body of a request is
  taken to be parsed into an object, of which the handler reads the fields. Strings are
  taken to be free of the zero character, which the storage refuses in a text.
\<close>

datatype jsval =
    Undefined
  | Null
  | Bool bool
  | Num jsnum
  | Str string
  | Arr "jsval list"
  | Obj "(string \<times> jsval) list"

text \<open>
  The functions of the platform that this development does not define, taken as
  parameters:
  \<^item> \<open>number_text\<close>: the text of a number (\<^verbatim>\<open>Number.prototype.toString\<close>);
  \<^item> \<open>string_number\<close>: the number a string is read as (\<^verbatim>\<open>Number(s)\<close>);
  \<^item> \<open>composite_text\<close>: the text that the storage client sends for an array or an
    object given as a query parameter;
  \<^item> \<open>numeric_in\<close>, \<open>date_in\<close>, \<open>jsonb_in\<close>: what the storage reads the text of a
    parameter as, when the parameter stands for a \<^verbatim>\<open>DECIMAL\<close>, a \<^verbatim>\<open>DATE\<close> and a
    \<^verbatim>\<open>JSONB\<close> value: the value or the error. A decimal is a number, not-a-number or
    infinite; a date is a calendar day or one of the two infinite dates; a JSONB value
    is given as the value it reads back as (its parameter as the value that the handler
    passes to \<^verbatim>\<open>JSON.stringify\<close>).
\<close>

type_synonym date = "int \<times> int \<times> int"

datatype pg_numeric = Numeric rat | NumericNaN | NumericInfinity | NumericMinusInfinity

datatype pg_date = Day date | DateInfinity | DateMinusInfinity

datatype pg_error =
    UniqueViolation string
  | CheckViolation string
  | NotNullViolation string
  | StringTooLong nat
  | InvalidInteger
  | IntegerOutOfRange
  | NumericOverflow
  | InvalidText string

record platform =
  number_text :: "jsnum \<Rightarrow> string"
  string_number :: "string \<Rightarrow> jsnum"
  composite_text :: "jsval \<Rightarrow> string"
  numeric_in :: "string \<Rightarrow> pg_error + pg_numeric"
  date_in :: "string \<Rightarrow> pg_error + pg_date"
  jsonb_in :: "jsval \<Rightarrow> pg_error + jsval"

text \<open>What the handlers themselves can throw, and what the storage client can throw.\<close>

datatype exn =
    NotIterable string
  | NotAFunction string
  | CannotReadProperty string
  | CannotConvertToPrimitive
  | DatabaseError pg_error

text \<open>Truthiness: what \<^verbatim>\<open>!x\<close>, \<^verbatim>\<open>x && ...\<close> and \<^verbatim>\<open>x || ...\<close> test.\<close>

fun truthy :: "jsval \<Rightarrow> bool" where
  "truthy Undefined = False"
| "truthy Null = False"
| "truthy (Bool b) = b"
| "truthy (Num x) = (x \<noteq> Fin 0 \<and> x \<noteq> NaN)"
| "truthy (Str s) = (s \<noteq> [])"
| "truthy (Arr xs) = True"
| "truthy (Obj kvs) = True"

text \<open>
  The value of an own property of a plain object; the handlers only read the properties
  \<^verbatim>\<open>component\<close>, \<^verbatim>\<open>amount\<close> and \<^verbatim>\<open>length\<close> and call \<^verbatim>\<open>match\<close>, \<^verbatim>\<open>trim\<close> and
  \<^verbatim>\<open>padStart\<close>, none of which a plain object inherits.
\<close>

definition own_property :: "(string \<times> jsval) list \<Rightarrow> string \<Rightarrow> jsval" where
  "own_property kvs k = (case map_of (rev kvs) k of None \<Rightarrow> Undefined | Some v \<Rightarrow> v)"

text \<open>
  \<^verbatim>\<open>v.component\<close> and \<^verbatim>\<open>v.amount\<close> (\<open>k\<close> is one of the two names): reading a property of
  \<^verbatim>\<open>null\<close> or \<^verbatim>\<open>undefined\<close> throws; strings, numbers, booleans and arrays have no such
  property.
\<close>

definition get_property :: "jsval \<Rightarrow> string \<Rightarrow> exn + jsval" where
  "get_property v k =
     (case v of
        Undefined \<Rightarrow> Inl (CannotReadProperty k)
      | Null \<Rightarrow> Inl (CannotReadProperty k)
      | Obj kvs \<Rightarrow> Inr (own_property kvs k)
      | _ \<Rightarrow> Inr Undefined)"

text \<open>\<^verbatim>\<open>v.length\<close>, for a value that is neither \<^verbatim>\<open>null\<close> nor \<^verbatim>\<open>undefined\<close>.\<close>

definition js_length :: "jsval \<Rightarrow> jsval" where
  "js_length v =
     (case v of
        Str s \<Rightarrow> Num (Fin (of_nat (length s)))
      | Arr xs \<Rightarrow> Num (Fin (of_nat (length xs)))
      | Obj kvs \<Rightarrow> own_property kvs ''length''
      | _ \<Rightarrow> Undefined)"

text \<open>
  What \<^verbatim>\<open>for (const x of v)\<close> runs through: the elements of an array, the characters of
  a string; nothing else here can be iterated (\<open>None\<close>: a \<^verbatim>\<open>TypeError\<close>).
\<close>

definition iterate :: "jsval \<Rightarrow> jsval list option" where
  "iterate v =
     (case v of
        Arr xs \<Rightarrow> Some xs
      | Str s \<Rightarrow> Some (map (\<lambda>c. Str [c]) s)
      | _ \<Rightarrow> None)"

text \<open>
  Conversion to a string, as \<^verbatim>\<open>regex.test(v)\<close> and a template literal apply it. An array
  is its elements joined by commas, \<^verbatim>\<open>null\<close> and \<^verbatim>\<open>undefined\<close> elements as empty
  strings. A plain object is \<^verbatim>\<open>[object Object]\<close>, unless it has a key \<^verbatim>\<open>toString\<close>: its
  value is not a function, so the conversion finds no method that returns a primitive
  and throws (\<open>None\<close>).
\<close>

fun join_texts :: "string option list \<Rightarrow> string option" where
  "join_texts [] = Some []"
| "join_texts [t] = t"
| "join_texts (t # ts) =
     (case (t, join_texts ts) of (Some a, Some b) \<Rightarrow> Some (a @ '','' @ b) | _ \<Rightarrow> None)"

fun ToString :: "platform \<Rightarrow> jsval \<Rightarrow> string option" where
  "ToString P Undefined = Some ''undefined''"
| "ToString P Null = Some ''null''"
| "ToString P (Bool b) = Some (if b then ''true'' else ''false'')"
| "ToString P (Num x) = Some (number_text P x)"
| "ToString P (Str s) = Some s"
| "ToString P (Arr xs) =
     join_texts (map (\<lambda>x. if x = Undefined \<or> x = Null then Some [] else ToString P x) xs)"
| "ToString P (Obj kvs) =
     (if ''toString'' \<in> fst ` set kvs then None else Some ''[object Object]'')"

text \<open>
  Conversion to a number, as \<^verbatim>\<open>isNaN(v)\<close> and the comparisons with a number apply it.
  An array goes through its string; a plain object without a key \<^verbatim>\<open>toString\<close> is
  not-a-number, with such a key the conversion throws (\<open>None\<close>).
\<close>

definition ToNumber :: "platform \<Rightarrow> jsval \<Rightarrow> jsnum option" where
  "ToNumber P v =
     (case v of
        Undefined \<Rightarrow> Some NaN
      | Null \<Rightarrow> Some (Fin 0)
      | Bool b \<Rightarrow> Some (Fin (if b then 1 else 0))
      | Num x \<Rightarrow> Some x
      | Str s \<Rightarrow> Some (string_number P s)
      | Arr xs \<Rightarrow> map_option (string_number P) (ToString P (Arr xs))
      | Obj kvs \<Rightarrow> (if ''toString'' \<in> fst ` set kvs then None else Some NaN))"

text \<open>\<^verbatim>\<open>x < 0\<close> and \<^verbatim>\<open>x > 31\<close> on a number.\<close>

definition js_greater_31 :: "jsnum \<Rightarrow> bool" where
  "js_greater_31 x = (case x of PosInf \<Rightarrow> True | Fin a \<Rightarrow> a > 31 | _ \<Rightarrow> False)"

section \<open>Requests and responses\<close>

text \<open>The fields that the create handler takes from the body of the request.\<close>

record payslip_request =
  employeeId :: jsval
  employeeName :: jsval
  designation :: jsval
  dateJoining :: jsval
  monthYear :: jsval
  employeeType :: jsval
  location :: jsval
  bankName :: jsval
  accountNo :: jsval
  workingDays :: jsval
  lop :: jsval
  pan :: jsval
  duration :: jsval
  earnings :: jsval
  deductions :: jsval
  grossPay :: jsval
  totalDeductions :: jsval
  netPay :: jsval
  providentFund :: jsval
  uan :: jsval
  esic :: jsval

text \<open>A row of the table \<^verbatim>\<open>payslips\<close>, with the column names of the schema.\<close>

record payslip_row =
  row_id :: int
  employee_id :: string
  employee_name :: "string option"
  designation_col :: "string option"
  date_joining :: "pg_date option"
  month_year :: string
  employee_type :: "string option"
  location_col :: "string option"
  bank_name :: "string option"
  account_no :: "string option"
  working_days :: "int option"
  lop_col :: "int option"
  pan_col :: "string option"
  duration_col :: "string option"
  earnings_col :: jsval
  deductions_col :: jsval
  gross_pay :: pg_numeric
  total_deductions :: pg_numeric
  net_pay :: pg_numeric
  provident_fund :: "string option"
  uan_col :: "string option"
  esic_col :: "string option"
  created_at :: string

text \<open>
  Response bodies. \<open>ErrorBody m\<close> is \<^verbatim>\<open>{ error: m }\<close>; \<open>InternalBody e\<close> is the body of
  every \<^verbatim>\<open>catch\<close> block, \<^verbatim>\<open>{ error: 'Internal server error: ' + e.message }\<close>.
  \<open>PayslipBody r label days\<close> is the enriched record of the lookup by employee and
  period: the columns of \<open>r\<close>, \<^verbatim>\<open>monthYearFormatted\<close> and \<^verbatim>\<open>daysInMonth\<close>.
\<close>

datatype body =
    ErrorBody string
  | InternalBody exn
  | CreatedBody int string
  | MessageBody string
  | PayslipBody payslip_row "string option" "int option"
  | RowBody payslip_row

datatype response = Response (status: nat) (body: body)

text \<open>\<^verbatim>\<open>x || null\<close> and \<^verbatim>\<open>x || 0\<close>.\<close>

definition or_null :: "jsval \<Rightarrow> jsval" where
  "or_null x = (if truthy x then x else Null)"

definition or_zero :: "jsval \<Rightarrow> jsval" where
  "or_zero x = (if truthy x then x else Num (Fin 0))"

section \<open>The table and its constraints\<close>

text \<open>
  The storage is the table of the schema: its rows in storage order, the next value of
  the \<^verbatim>\<open>SERIAL\<close> sequence behind \<^verbatim>\<open>id\<close>, and the storage's \<^verbatim>\<open>CURRENT_DATE\<close>.
  A statement is atomic; the model assumes the storage can be reached.
\<close>

record db =
  rows :: "payslip_row list"
  next_id :: int
  today :: date

definition month_year_regex :: regex where
  "month_year_regex = cats [times 4 Digit, Chr CHR ''-'', times 2 Digit]"

text \<open>
  The text that the storage client sends for a query parameter: nothing (\<^verbatim>\<open>NULL\<close>) for
  \<^verbatim>\<open>null\<close> and \<^verbatim>\<open>undefined\<close>, a string as it is, \<^verbatim>\<open>toString()\<close> of a number or a
  boolean, and the platform's text of an array or an object.
\<close>

definition param_text :: "platform \<Rightarrow> jsval \<Rightarrow> string option" where
  "param_text P v =
     (case v of
        Undefined \<Rightarrow> None
      | Null \<Rightarrow> None
      | Bool b \<Rightarrow> Some (if b then ''true'' else ''false'')
      | Num x \<Rightarrow> Some (number_text P x)
      | Str s \<Rightarrow> Some s
      | _ \<Rightarrow> Some (composite_text P v))"

text \<open>
  Assignment to a \<^verbatim>\<open>VARCHAR(n)\<close> column: a longer string is an error, unless what
  exceeds \<open>n\<close> characters is spaces only, which are cut off.
\<close>

definition varchar :: "nat \<Rightarrow> string option \<Rightarrow> pg_error option \<times> string option" where
  "varchar n v =
     (case v of
        None \<Rightarrow> (None, None)
      | Some s \<Rightarrow>
          if length s \<le> n then (None, Some s)
          else if list_all (\<lambda>c. c = CHR '' '') (drop n s) then (None, Some (take n s))
          else (Some (StringTooLong n), None))"

text \<open>
  A parameter text read as an \<^verbatim>\<open>INTEGER\<close> (the storage is PostgreSQL 14): white space,
  an optional sign, decimal digits, white space. The value must fit 32 bits. The digits
  are accumulated as a negative number, so that a value beyond \<open>2 ^ 31\<close> is out of range
  as soon as its digits are read, and \<open>2 ^ 31\<close> itself, without a minus sign, only
  after the rest of the text has been found to be white space.
\<close>

definition int_value :: "string \<Rightarrow> int" where
  "int_value s = foldl (\<lambda>a c. 10 * a + int (digit_val c)) 0 s"

definition pg_space :: "char \<Rightarrow> bool" where
  "pg_space c = ((of_char c :: nat) \<in> {9, 10, 11, 12, 13, 32})"

definition int4_in :: "string \<Rightarrow> pg_error + int" where
  "int4_in s =
     (let t = dropWhile pg_space s;
          negative = (t \<noteq> [] \<and> hd t = CHR ''-'');
          u = (if t \<noteq> [] \<and> (hd t = CHR ''-'' \<or> hd t = CHR ''+'') then tl t else t);
          ds = takeWhile is_digit u
      in if ds = [] then Inl InvalidInteger
         else if int_value ds > 2 ^ 31 then Inl IntegerOutOfRange
         else if dropWhile pg_space (dropWhile is_digit u) \<noteq> [] then Inl InvalidInteger
         else if \<not> negative \<and> int_value ds = 2 ^ 31 then Inl IntegerOutOfRange
         else Inr (if negative then - int_value ds else int_value ds))"

text \<open>The conversion of an optional parameter; \<^verbatim>\<open>NULL\<close> stays \<^verbatim>\<open>NULL\<close>.\<close>

definition convert :: "('b \<Rightarrow> pg_error + 'a) \<Rightarrow> 'b option \<Rightarrow> pg_error option \<times> 'a option" where
  "convert f v =
     (case v of
        None \<Rightarrow> (None, None)
      | Some s \<Rightarrow> (case f s of Inl e \<Rightarrow> (Some e, None) | Inr x \<Rightarrow> (None, Some x)))"

definition date_le :: "date \<Rightarrow> date \<Rightarrow> bool" where
  "date_le a b = (case a of (y, m, d) \<Rightarrow> case b of (y', m', d') \<Rightarrow>
     y < y' \<or> (y = y' \<and> (m < m' \<or> (m = m' \<and> d \<le> d'))))"

text \<open>
  \<^verbatim>\<open>date_joining >= '1990-01-01' AND date_joining <= CURRENT_DATE\<close>; the infinite dates
  lie before and after every day.
\<close>

definition date_joining_check :: "date \<Rightarrow> pg_date \<Rightarrow> bool" where
  "date_joining_check cur d =
     (case d of Day x \<Rightarrow> date_le (1990, 1, 1) x \<and> date_le x cur | _ \<Rightarrow> False)"

text \<open>\<^verbatim>\<open>x >= 0\<close> on a decimal; not-a-number is greater than every number there.\<close>

definition numeric_nonneg :: "pg_numeric \<Rightarrow> bool" where
  "numeric_nonneg x =
     (case x of
        Numeric a \<Rightarrow> a \<ge> 0
      | NumericNaN \<Rightarrow> True
      | NumericInfinity \<Rightarrow> True
      | NumericMinusInfinity \<Rightarrow> False)"

text \<open>
  Assignment to a \<^verbatim>\<open>DECIMAL(10, 2)\<close> column: the number is rounded to two decimal
  places, a tie away from zero, and must then be below \<open>10 ^ 8\<close> in absolute value;
  not-a-number is stored as it is, an infinite value is an error.
\<close>

definition decimal_10_2 :: "pg_numeric option \<Rightarrow> pg_error option \<times> pg_numeric option" where
  "decimal_10_2 v =
     (case v of
        None \<Rightarrow> (None, None)
      | Some NumericNaN \<Rightarrow> (None, Some NumericNaN)
      | Some (Numeric a) \<Rightarrow>
          (let r = (if a \<ge> 0 then of_int \<lfloor>a * 100 + 1 / 2\<rfloor> / 100
                    else - (of_int \<lfloor>- a * 100 + 1 / 2\<rfloor> / 100))
           in if \<bar>r\<bar> \<ge> 10 ^ 8 then (Some NumericOverflow, None) else (None, Some (Numeric r)))
      | Some _ \<Rightarrow> (Some NumericOverflow, None))"

definition first_error :: "pg_error option list \<Rightarrow> pg_error option" where
  "first_error es = (case List.map_filter (\<lambda>e. e) es of [] \<Rightarrow> None | e # _ \<Rightarrow> Some e)"

text \<open>A \<^verbatim>\<open>CHECK\<close> on a nullable column holds when the column is null.\<close>

definition check_null :: "string \<Rightarrow> ('a \<Rightarrow> bool) \<Rightarrow> 'a option \<Rightarrow> pg_error option" where
  "check_null name p v =
     (case v of None \<Rightarrow> None | Some x \<Rightarrow> if p x then None else Some (CheckViolation name))"

definition check_that :: "string \<Rightarrow> bool \<Rightarrow> pg_error option" where
  "check_that name b = (if b then None else Some (CheckViolation name))"

text \<open>The \<^verbatim>\<open>CHECK\<close> constraints of the schema, on a row whose columns have their types.\<close>

definition check_constraints :: "date \<Rightarrow> payslip_row \<Rightarrow> pg_error option" where
  "check_constraints cur r = first_error
     [ check_null ''payslips_account_no_check'' (rx_test bank_account_regex) (account_no r),
       check_null ''payslips_date_joining_check'' (date_joining_check cur) (date_joining r),
       check_that ''payslips_employee_id_check'' (rx_test employee_id_regex (employee_id r)),
       check_null ''payslips_employee_type_check''
         (\<lambda>t. t \<in> set [''Permanent'', ''Contract'', ''Temporary'']) (employee_type r),
       check_that ''payslips_gross_pay_check'' (numeric_nonneg (gross_pay r)),
       check_null ''payslips_lop_check'' (\<lambda>n. n \<ge> 0 \<and> n \<le> 31) (lop_col r),
       check_that ''payslips_month_year_check'' (rx_test month_year_regex (month_year r)),
       check_that ''payslips_net_pay_check'' (numeric_nonneg (net_pay r)),
       check_null ''payslips_pan_check'' (rx_test pan_regex) (pan_col r),
       check_that ''payslips_total_deductions_check'' (numeric_nonneg (total_deductions r)),
       check_null ''payslips_working_days_check'' (\<lambda>n. n \<ge> 0 \<and> n \<le> 31) (working_days r) ]"

text \<open>
  The primary key and \<^verbatim>\<open>CONSTRAINT unique_employee_month_year UNIQUE (employee_id,
  month_year)\<close>, for a new row against the rows of the table.
\<close>

definition unique_constraints :: "payslip_row list \<Rightarrow> payslip_row \<Rightarrow> pg_error option" where
  "unique_constraints rs r = first_error
     [ if list_ex (\<lambda>x. row_id x = row_id r) rs then Some (UniqueViolation ''payslips_pkey'') else None,
       if list_ex (\<lambda>x. employee_id x = employee_id r \<and> month_year x = month_year r) rs
       then Some (UniqueViolation ''unique_employee_month_year'') else None ]"

definition not_null :: "string \<Rightarrow> 'a option \<Rightarrow> pg_error option" where
  "not_null name v = (case v of None \<Rightarrow> Some (NotNullViolation name) | Some _ \<Rightarrow> None)"

text \<open>
  The \<^verbatim>\<open>INSERT ... RETURNING id\<close> of the create handler, on the values the handler
  passes (the fields of a request, after the handler's defaults; \<^verbatim>\<open>earnings\<close> and
  \<^verbatim>\<open>deductions\<close> stand for their JSON texts) and its time stamp. The texts of the
  parameters are read first, in their order, as the types of their columns; an error
  there leaves the storage as it was. Then the row is formed: \<^verbatim>\<open>id\<close> takes the next
  value of the sequence (which stays taken when the statement fails), the text and
  decimal columns are fitted to their declared sizes, and the not-null, check and
  uniqueness constraints are enforced.
\<close>

definition db_insert :: "platform \<Rightarrow> db \<Rightarrow> string \<Rightarrow> payslip_request \<Rightarrow> db \<times> (pg_error + int)" where
  "db_insert P s now p =
     (let (e_dj, dj) = convert (date_in P) (param_text P (dateJoining p));
          (e_wd, wd) = convert int4_in (param_text P (workingDays p));
          (e_lop, lp) = convert int4_in (param_text P (lop p));
          (e_ea, ea) = (case earnings p of Undefined \<Rightarrow> (None, None)
                        | v \<Rightarrow> convert (jsonb_in P) (Some v));
          (e_de, de) = (case deductions p of Undefined \<Rightarrow> (None, None)
                        | v \<Rightarrow> convert (jsonb_in P) (Some v));
          (e_gp, gp) = convert (numeric_in P) (param_text P (grossPay p));
          (e_td, td) = convert (numeric_in P) (param_text P (totalDeductions p));
          (e_np, np) = convert (numeric_in P) (param_text P (netPay p))
      in case first_error [e_dj, e_wd, e_lop, e_ea, e_de, e_gp, e_td, e_np] of
           Some e \<Rightarrow> (s, Inl e)
         | None \<Rightarrow>
            (let s1 = s\<lparr>next_id := next_id s + 1\<rparr>;
                 (e1, eid) = varchar 7 (param_text P (employeeId p));
                 (e2, ename) = varchar 30 (param_text P (employeeName p));
                 (e3, desig) = varchar 30 (param_text P (designation p));
                 (e4, my) = varchar 7 (param_text P (monthYear p));
                 (e5, etype) = varchar 20 (param_text P (employeeType p));
                 (e6, loc) = varchar 30 (param_text P (location p));
                 (e7, bank) = varchar 30 (param_text P (bankName p));
                 (e8, acct) = varchar 16 (param_text P (accountNo p));
                 (e9, pn) = varchar 10 (param_text P (pan p));
                 (e10, dur) = varchar 100 (param_text P (duration p));
                 (e11, gross) = decimal_10_2 gp;
                 (e12, total) = decimal_10_2 td;
                 (e13, net) = decimal_10_2 np;
                 (e14, pf) = varchar 20 (param_text P (providentFund p));
                 (e15, un) = varchar 20 (param_text P (uan p));
                 (e16, es) = varchar 20 (param_text P (esic p))
             in case first_error [e1, e2, e3, e4, e5, e6, e7, e8, e9, e10, e11, e12, e13,
                                  e14, e15, e16,
                                  not_null ''employee_id'' eid, not_null ''month_year'' my,
                                  not_null ''earnings'' ea, not_null ''deductions'' de,
                                  not_null ''gross_pay'' gross,
                                  not_null ''total_deductions'' total,
                                  not_null ''net_pay'' net] of
                  Some e \<Rightarrow> (s1, Inl e)
                | None \<Rightarrow>
                   (let r = \<lparr> row_id = next_id s, employee_id = the eid, employee_name = ename,
                              designation_col = desig, date_joining = dj, month_year = the my,
                              employee_type = etype, location_col = loc, bank_name = bank,
                              account_no = acct, working_days = wd, lop_col = lp, pan_col = pn,
                              duration_col = dur, earnings_col = the ea,
                              deductions_col = the de, gross_pay = the gross,
                              total_deductions = the total, net_pay = the net,
                              provident_fund = pf, uan_col = un, esic_col = es,
                              created_at = now \<rparr>
                    in case first_error [check_constraints (today s) r,
                                         unique_constraints (rows s) r] of
                         Some e \<Rightarrow> (s1, Inl e)
                       | None \<Rightarrow> (s1\<lparr>rows := rows s @ [r]\<rparr>, Inr (row_id r)))))"

text \<open>
  \<^verbatim>\<open>SELECT id FROM payslips WHERE employee_id = $1 AND month_year = $2\<close>; a \<^verbatim>\<open>NULL\<close>
  parameter equals nothing.
\<close>

definition db_select_pair :: "db \<Rightarrow> string option \<Rightarrow> string option \<Rightarrow> payslip_row list" where
  "db_select_pair s e my =
     filter (\<lambda>r. Some (employee_id r) = e \<and> Some (month_year r) = my) (rows s)"




text \<open>\<^verbatim>\<open>SELECT * FROM payslips WHERE id = $1\<close>\<close>

definition db_select_id :: "db \<Rightarrow> int \<Rightarrow> payslip_row list" where
  "db_select_id s i = filter (\<lambda>r. row_id r = i) (rows s)"

text \<open>\<^verbatim>\<open>DELETE FROM payslips WHERE id = $1\<close>: the new storage and the row count.\<close>

definition db_delete :: "db \<Rightarrow> int \<Rightarrow> db \<times> nat" where
  "db_delete s i =
     (s\<lparr>rows := filter (\<lambda>r. row_id r \<noteq> i) (rows s)\<rparr>, length (filter (\<lambda>r. row_id r = i) (rows s)))"

text \<open>
  The constraints of the schema on the key columns, as a property of the storage: the
  employee id and the period key of every row satisfy their checks, every id was drawn
  from the sequence, and the primary key and the pair (employee id, period key) are
  unique.
\<close>

definition db_wf :: "db \<Rightarrow> bool" where
  "db_wf s =
     (list_all (\<lambda>r. rx_test employee_id_regex (employee_id r)
                    \<and> rx_test month_year_regex (month_year r)
                    \<and> row_id r < next_id s) (rows s)
      \<and> distinct (map row_id (rows s))
      \<and> distinct (map (\<lambda>r. (employee_id r, month_year r)) (rows s)))"


section \<open>The request handlers\<close>

definition bad_request :: "string \<Rightarrow> response" where
  "bad_request msg = Response 400 (ErrorBody msg)"

definition not_found :: "string \<Rightarrow> response" where
  "not_found msg = Response 404 (ErrorBody msg)"

text \<open>Every handler is wrapped in \<^verbatim>\<open>try ... catch\<close>; this is the \<^verbatim>\<open>catch\<close> block.\<close>

definition internal_error :: "exn \<Rightarrow> response" where
  "internal_error e = Response 500 (InternalBody e)"

text \<open>
  The validators as the handlers call them, on any value. \<^verbatim>\<open>regex.test(v)\<close> converts
  its argument to a string; \<^verbatim>\<open>input.match\<close> and \<^verbatim>\<open>account.trim\<close> are methods of
  strings only, and calling them on another value throws.
\<close>

definition validateEmployeeId_of :: "platform \<Rightarrow> jsval \<Rightarrow> exn + bool" where
  "validateEmployeeId_of P v =
     (case ToString P v of
        None \<Rightarrow> Inl CannotConvertToPrimitive
      | Some t \<Rightarrow> Inr (validateEmployeeId t))"

definition validatePAN_of :: "platform \<Rightarrow> jsval \<Rightarrow> exn + bool" where
  "validatePAN_of P v =
     (case ToString P v of
        None \<Rightarrow> Inl CannotConvertToPrimitive
      | Some t \<Rightarrow> Inr (validatePAN t))"

definition validateAlphabeticWithSpaces_of :: "jsval \<Rightarrow> exn + bool" where
  "validateAlphabeticWithSpaces_of v =
     (case v of
        Str s \<Rightarrow> Inr (validateAlphabeticWithSpaces s)
      | Undefined \<Rightarrow> Inl (CannotReadProperty ''match'')
      | Null \<Rightarrow> Inl (CannotReadProperty ''match'')
      | _ \<Rightarrow> Inl (NotAFunction ''input.match''))"

definition validateBankAccount_of :: "jsval \<Rightarrow> exn + bool" where
  "validateBankAccount_of v =
     (case v of
        Str s \<Rightarrow> Inr (validateBankAccount s)
      | Undefined \<Rightarrow> Inl (CannotReadProperty ''trim'')
      | Null \<Rightarrow> Inl (CannotReadProperty ''trim'')
      | _ \<Rightarrow> Inl (NotAFunction ''account.trim''))"

definition validateComponentName_of :: "jsval \<Rightarrow> exn + bool" where
  "validateComponentName_of v = validateAlphabeticWithSpaces_of v"

text \<open>
  A check of the handler either lets the request through (\<open>None\<close>), returns a rejection,
  or throws. The checks run in order; the first that does not let the request through
  decides.
\<close>

datatype failure = Reject response | Throw exn

definition first_failure :: "failure option list \<Rightarrow> failure option" where
  "first_failure fs = (case List.map_filter (\<lambda>f. f) fs of [] \<Rightarrow> None | f # _ \<Rightarrow> Some f)"

text \<open>\<^verbatim>\<open>if (!employeeId || !monthYear)\<close>\<close>

definition required_check :: "payslip_request \<Rightarrow> failure option" where
  "required_check req =
     (if \<not> truthy (employeeId req) \<or> \<not> truthy (monthYear req)
      then Some (Reject (bad_request ''Employee ID and Month/Year are required''))
      else None)"

text \<open>\<^verbatim>\<open>if (!validateEmployeeId(employeeId))\<close>\<close>

definition employee_id_check :: "platform \<Rightarrow> payslip_request \<Rightarrow> failure option" where
  "employee_id_check P req =
     (case validateEmployeeId_of P (employeeId req) of
        Inl e \<Rightarrow> Some (Throw e)
      | Inr ok \<Rightarrow>
          if \<not> ok then Some (Reject (bad_request ''Invalid Employee ID format (e.g., ATS0123)''))
          else None)"

text \<open>\<^verbatim>\<open>if (x && !valid(x))\<close>, with the message of the rejection.\<close>

definition optional_check :: "(jsval \<Rightarrow> exn + bool) \<Rightarrow> string \<Rightarrow> jsval \<Rightarrow> failure option" where
  "optional_check valid msg x =
     (if \<not> truthy x then None
      else (case valid x of
          Inl e \<Rightarrow> Some (Throw e)
        | Inr ok \<Rightarrow> if ok then None else Some (Reject (bad_request msg))))"

text \<open>\<^verbatim>\<open>if (x && (isNaN(x) || x < 0 || x > 31))\<close>\<close>

definition range_check :: "platform \<Rightarrow> string \<Rightarrow> jsval \<Rightarrow> failure option" where
  "range_check P msg x =
     (if \<not> truthy x then None
      else (case ToNumber P x of
          None \<Rightarrow> Some (Throw CannotConvertToPrimitive)
        | Some n \<Rightarrow>
            if isNaN n \<or> js_negative n \<or> js_greater_31 n then Some (Reject (bad_request msg))
            else None))"

text \<open>The checks of the scalar fields (lines 86 to 125 of the source), in their order.\<close>

definition validate_scalars :: "platform \<Rightarrow> payslip_request \<Rightarrow> failure option" where
  "validate_scalars P req = first_failure
     [ required_check req,
       employee_id_check P req,
       optional_check validateAlphabeticWithSpaces_of
         ''Invalid Employee Name (min 5 letters, max 30)'' (employeeName req),
       optional_check validateAlphabeticWithSpaces_of
         ''Invalid Designation (min 5 letters, max 30)'' (designation req),
       optional_check validateAlphabeticWithSpaces_of
         ''Invalid Location (min 5 letters, max 30)'' (location req),
       optional_check validateAlphabeticWithSpaces_of
         ''Invalid Bank Name (min 5 letters, max 30)'' (bankName req),
       optional_check (validatePAN_of P) ''Invalid PAN format (e.g., ABCDE1234F)'' (pan req),
       optional_check validateBankAccount_of
         ''Invalid Bank Account Number (9-16 digits)'' (accountNo req),
       range_check P ''Working Days must be between 0 and 31'' (workingDays req),
       range_check P ''LOP must be between 0 and 31'' (lop req) ]"

text \<open>
  The loop over the line items of one collection (\<open>kind\<close> is \<^verbatim>\<open>earning\<close> or
  \<^verbatim>\<open>deduction\<close>): the component name is validated, then the amount must not be
  not-a-number and not be negative.
\<close>

fun check_items :: "string \<Rightarrow> platform \<Rightarrow> jsval list \<Rightarrow> failure option" where
  "check_items kind P [] = None"
| "check_items kind P (item # items) =
     (case get_property item ''component'' of
        Inl e \<Rightarrow> Some (Throw e)
      | Inr c \<Rightarrow>
         (case validateComponentName_of c of
            Inl e \<Rightarrow> Some (Throw e)
          | Inr ok \<Rightarrow>
             (case ToString P c of
                None \<Rightarrow> Some (Throw CannotConvertToPrimitive)
              | Some name \<Rightarrow>
                  if \<not> ok
                    then Some (Reject (bad_request (''Invalid '' @ kind @ '' component name: '' @ name)))
                  else (case get_property item ''amount'' of
                      Inl e \<Rightarrow> Some (Throw e)
                    | Inr a \<Rightarrow>
                       (case ToNumber P a of
                          None \<Rightarrow> Some (Throw CannotConvertToPrimitive)
                        | Some n \<Rightarrow>
                            if isNaN n \<or> js_negative n
                              then Some (Reject (bad_request (''Invalid '' @ kind @ '' amount for '' @ name)))
                            else check_items kind P items)))))"

text \<open>\<^verbatim>\<open>if (!earnings || earnings.length === 0)\<close>, then the loop over the earnings.\<close>

definition earnings_check :: "platform \<Rightarrow> payslip_request \<Rightarrow> failure option" where
  "earnings_check P req =
     (if \<not> truthy (earnings req) \<or> js_length (earnings req) = Num (Fin 0)
        then Some (Reject (bad_request ''At least one earning is required''))
      else (case iterate (earnings req) of
          None \<Rightarrow> Some (Throw (NotIterable ''earnings''))
        | Some items \<Rightarrow> check_items ''earning'' P items))"

text \<open>The loop over the deductions; there is no check before it.\<close>

definition deductions_check :: "platform \<Rightarrow> payslip_request \<Rightarrow> failure option" where
  "deductions_check P req =
     (case iterate (deductions req) of
        None \<Rightarrow> Some (Throw (NotIterable ''deductions''))
      | Some items \<Rightarrow> check_items ''deduction'' P items)"

text \<open>
  The first part of \<^verbatim>\<open>app.post('/api/payslips')\<close>, up to the duplicate check: \<open>None\<close>
  when the request passes.
\<close>

definition validate_request :: "platform \<Rightarrow> payslip_request \<Rightarrow> failure option" where
  "validate_request P req =
     first_failure [validate_scalars P req, earnings_check P req, deductions_check P req]"

text \<open>The values of the insert: \<^verbatim>\<open>x || null\<close> on the optional fields, \<^verbatim>\<open>lop || 0\<close>.\<close>

definition insert_values :: "payslip_request \<Rightarrow> payslip_request" where
  "insert_values req = req
     \<lparr> employeeName := or_null (employeeName req),
       designation := or_null (designation req),
       dateJoining := or_null (dateJoining req),
       employeeType := or_null (employeeType req),
       location := or_null (location req),
       bankName := or_null (bankName req),
       accountNo := or_null (accountNo req),
       workingDays := or_null (workingDays req),
       lop := or_zero (lop req),
       pan := or_null (pan req),
       duration := or_null (duration req),
       providentFund := or_null (providentFund req),
       uan := or_null (uan req),
       esic := or_null (esic req) \<rparr>"

definition duplicate_error :: response where
  "duplicate_error = bad_request ''Payslip already exists for this Employee ID and Month/Year''"

text \<open>
  \<^verbatim>\<open>app.post('/api/payslips')\<close>. After the validation the handler awaits two statements,
  the duplicate check and the insert; \<open>others\<close> is what the statements of other requests
  do to the storage between the two (the identity when the handler runs alone), and
  \<open>now\<close> is the time stamp \<^verbatim>\<open>new Date().toISOString()\<close>. An exception, thrown by the
  handler or by the storage, ends in the \<^verbatim>\<open>catch\<close> block. The result is the storage
  afterwards and the response.
\<close>

definition post_payslips ::
  "platform \<Rightarrow> (db \<Rightarrow> db) \<Rightarrow> string \<Rightarrow> db \<Rightarrow> payslip_request \<Rightarrow> db \<times> response" where
  "post_payslips P others now s req =
     (case validate_request P req of
        Some (Reject rejection) \<Rightarrow> (s, rejection)
      | Some (Throw e) \<Rightarrow> (s, internal_error e)
      | None \<Rightarrow>
          if db_select_pair s (param_text P (employeeId req)) (param_text P (monthYear req)) \<noteq> []
            then (s, duplicate_error)
          else (case db_insert P (others s) now (insert_values req) of
              (s', Inl e) \<Rightarrow> (s', internal_error (DatabaseError e))
            | (s', Inr new_id) \<Rightarrow>
                (s', Response 201 (CreatedBody new_id ''Payslip created successfully''))))"

text \<open>The handler running alone: nothing happens between its two statements.\<close>

definition create :: "platform \<Rightarrow> string \<Rightarrow> db \<Rightarrow> payslip_request \<Rightarrow> db \<times> response" where
  "create P now s req = post_payslips P (\<lambda>s. s) now s req"



text \<open>
  \<^verbatim>\<open>app.get('/api/payslips/:id')\<close>, on the text of the id in the path. (A request for
  \<^verbatim>\<open>/api/payslips/all\<close> is taken by the handler of the list, which is registered first.)
  The storage reads the text of the id as an \<^verbatim>\<open>INTEGER\<close>; a text that is none makes the
  query throw.
\<close>

definition get_payslip_by_id :: "db \<Rightarrow> string \<Rightarrow> response" where
  "get_payslip_by_id s ident =
     (case int4_in ident of
        Inl e \<Rightarrow> internal_error (DatabaseError e)
      | Inr i \<Rightarrow>
         (case db_select_id s i of
            [] \<Rightarrow> not_found ''Payslip not found''
          | payslip # _ \<Rightarrow> Response 200 (RowBody payslip)))"

text \<open>\<^verbatim>\<open>app.delete('/api/payslips/:id')\<close>\<close>

definition delete_payslip :: "db \<Rightarrow> string \<Rightarrow> db \<times> response" where
  "delete_payslip s ident =
     (case int4_in ident of
        Inl e \<Rightarrow> (s, internal_error (DatabaseError e))
      | Inr i \<Rightarrow>
         (case db_delete s i of
            (s', rowCount) \<Rightarrow>
              if rowCount = 0 then (s', not_found ''Payslip not found'')
              else (s', Response 200 (MessageBody ''Payslip deleted successfully''))))"

text \<open>
  The error taxonomy of the specification on the responses of the create handler: a
  validation rejection is a 400 response other than the duplicate error.
\<close>

definition is_validation_rejection :: "response \<Rightarrow> bool" where
  "is_validation_rejection resp = (status resp = 400 \<and> resp \<noteq> duplicate_error)"

text \<open>A field that is left out, \<^verbatim>\<open>null\<close>, or a string.\<close>

definition text_or_absent :: "jsval \<Rightarrow> bool" where
  "text_or_absent v = (case v of Undefined \<Rightarrow> True | Null \<Rightarrow> True | Str s \<Rightarrow> True | _ \<Rightarrow> False)"

text \<open>A field that is left out, \<^verbatim>\<open>null\<close>, a number, or a string.\<close>

definition number_or_absent :: "jsval \<Rightarrow> bool" where
  "number_or_absent v =
     (case v of Undefined \<Rightarrow> True | Null \<Rightarrow> True | Num x \<Rightarrow> True | Str s \<Rightarrow> True | _ \<Rightarrow> False)"

text \<open>
  The scalar fields of a request are plain: each text field that is given is a string,
  and the two day counts are numbers or strings.
\<close>

definition plain_scalars :: "payslip_request \<Rightarrow> bool" where
  "plain_scalars req =
     (text_or_absent (employeeId req) \<and> text_or_absent (employeeName req)
      \<and> text_or_absent (designation req) \<and> text_or_absent (location req)
      \<and> text_or_absent (bankName req) \<and> text_or_absent (pan req)
      \<and> text_or_absent (accountNo req) \<and> number_or_absent (workingDays req)
      \<and> number_or_absent (lop req))"

text \<open>The messages of the rejections of the scalar checks.\<close>

definition scalar_messages :: "string list" where
  "scalar_messages =
     [''Employee ID and Month/Year are required'',
      ''Invalid Employee ID format (e.g., ATS0123)'',
      ''Invalid Employee Name (min 5 letters, max 30)'',
      ''Invalid Designation (min 5 letters, max 30)'',
      ''Invalid Location (min 5 letters, max 30)'',
      ''Invalid Bank Name (min 5 letters, max 30)'',
      ''Invalid PAN format (e.g., ABCDE1234F)'',
      ''Invalid Bank Account Number (9-16 digits)'',
      ''Working Days must be between 0 and 31'',
      ''LOP must be between 0 and 31'']"



section \<open>Example data\<close>

text \<open>
  A stand-in for the platform, which agrees with it on the arguments of the examples:
  whole numbers written in digits, and days written as \<^verbatim>\<open>YYYY-MM-DD\<close>.
\<close>

function digits_of :: "int \<Rightarrow> string" where
  "digits_of n =
     (if n < 10 then [char_of (48 + nat n)]
      else digits_of (n div 10) @ [char_of (48 + nat (n mod 10))])"
  by pat_completeness auto
termination
  by (relation "measure nat") auto

definition sample_number_text :: "jsnum \<Rightarrow> string" where
  "sample_number_text x =
     (case x of
        NaN \<Rightarrow> ''NaN''
      | PosInf \<Rightarrow> ''Infinity''
      | NegInf \<Rightarrow> ''-Infinity''
      | Fin a \<Rightarrow> if a \<ge> 0 then digits_of \<lfloor>a\<rfloor> else CHR ''-'' # digits_of \<lfloor>- a\<rfloor>)"

definition sample_string_number :: "string \<Rightarrow> jsnum" where
  "sample_string_number s =
     (if s \<noteq> [] \<and> length s \<le> 15 \<and> list_all is_digit s then Fin (of_int (int_value s)) else NaN)"

definition sample_numeric_in :: "string \<Rightarrow> pg_error + pg_numeric" where
  "sample_numeric_in s =
     (if s \<noteq> [] \<and> list_all is_digit s then Inr (Numeric (of_int (int_value s)))
      else Inl (InvalidText ''numeric''))"

definition valid_date :: "date \<Rightarrow> bool" where
  "valid_date d = (case d of (y, m, dd) \<Rightarrow>
     1 \<le> y \<and> 1 \<le> m \<and> m \<le> 12 \<and> 1 \<le> dd \<and> dd \<le> month_length y (m - 1))"

definition sample_date_in :: "string \<Rightarrow> pg_error + pg_date" where
  "sample_date_in s =
     (case map Number_str (split_dash s) of
        [Some y, Some m, Some d] \<Rightarrow>
          if length s = 10 \<and> valid_date (y, m, d) then Inr (Day (y, m, d))
          else Inl (InvalidText ''date'')
      | _ \<Rightarrow> Inl (InvalidText ''date''))"

definition sample_platform :: platform where
  "sample_platform =
     \<lparr> number_text = sample_number_text, string_number = sample_string_number,
       composite_text = (\<lambda>v. ''{}''), numeric_in = sample_numeric_in,
       date_in = sample_date_in, jsonb_in = Inr \<rparr>"

definition sample_earning :: jsval where
  "sample_earning = Obj [(''component'', Str ''Basic Salary''), (''amount'', Num (Fin 30000))]"

definition sample_request :: payslip_request where
  "sample_request =
     \<lparr> employeeId = Str ''ATS0123'', employeeName = Str ''Alice Smith'',
       designation = Str ''Engineer'', dateJoining = Str ''2020-01-15'',
       monthYear = Str ''2024-01'', employeeType = Str ''Permanent'',
       location = Str ''Hyderabad'', bankName = Str ''State Bank'',
       accountNo = Str ''123456789012'', workingDays = Num (Fin 30), lop = Num (Fin 2),
       pan = Str ''ABCDE1234F'', duration = Undefined,
       earnings = Arr [sample_earning],
       deductions = Arr [], grossPay = Num (Fin 30000), totalDeductions = Num (Fin 2000),
       netPay = Num (Fin 28000), providentFund = Undefined, uan = Undefined, esic = Undefined \<rparr>"

definition sample_row :: payslip_row where
  "sample_row =
     \<lparr> row_id = 1, employee_id = ''ATS0123'', employee_name = Some ''Alice Smith'',
       designation_col = Some ''Engineer'', date_joining = Some (Day (2020, 1, 15)),
       month_year = ''2024-01'', employee_type = Some ''Permanent'',
       location_col = Some ''Hyderabad'', bank_name = Some ''State Bank'',
       account_no = Some ''123456789012'', working_days = Some 30, lop_col = Some 2,
       pan_col = Some ''ABCDE1234F'', duration_col = None,
       earnings_col = Arr [sample_earning],
       deductions_col = Arr [], gross_pay = Numeric 30000, total_deductions = Numeric 2000,
       net_pay = Numeric 28000, provident_fund = None, uan_col = None, esic_col = None,
       created_at = ''2024-02-01T09:00:00.000Z'' \<rparr>"

definition empty_db :: db where
  "empty_db = \<lparr> rows = [], next_id = 1, today = (2024, 2, 1) \<rparr>"

definition one_row_db :: db where
  "one_row_db = \<lparr> rows = [sample_row], next_id = 2, today = (2024, 2, 1) \<rparr>"

text \<open>Another request's create of the sample payslip, as it lands between two statements.\<close>

definition concurrent_create :: "db \<Rightarrow> db" where
  "concurrent_create s = fst (create sample_platform ''2024-02-01T09:00:00.000Z'' s sample_request)"

section \<open>Properties of the field validators\<close>

lemma one_char_case:
  "one_char p s = (case s of [] \<Rightarrow> [] | c # cs \<Rightarrow> if p c then [cs] else [])"
  by (cases s) simp_all

text \<open>
  Claim C3. For every string \<open>s\<close>, the employee id validator accepts \<open>s\<close> if and only if
  \<open>s\<close> is the prefix \<^verbatim>\<open>ATS0\<close> followed by exactly three digits that are not \<^verbatim>\<open>000\<close>.
\<close>

theorem validateEmployeeId_iff:
  "validateEmployeeId s \<longleftrightarrow>
     (\<exists>d1 d2 d3. s = ''ATS0'' @ [d1, d2, d3] \<and> is_digit d1 \<and> is_digit d2 \<and> is_digit d3
        \<and> [d1, d2, d3] \<noteq> ''000'')"
  unfolding validateEmployeeId_def rx_test_def employee_id_regex_def lit_def times_def
  apply (simp add: one_char_case numeral_3_eq_3 split: list.splits)
  apply auto
  done

theorem validateEmployeeId_iff_witness:
  "validateEmployeeId ''ATS0123'' \<and> validateEmployeeId ''ATS0001''
   \<and> \<not> validateEmployeeId ''ATS0000'' \<and> \<not> validateEmployeeId ''ATS01234''
   \<and> \<not> validateEmployeeId ''ats0123''"
  using validateEmployeeId_iff [of "''ATS0123''"] validateEmployeeId_iff [of "''ATS0001''"]
    validateEmployeeId_iff [of "''ATS0000''"] validateEmployeeId_iff [of "''ATS01234''"]
    validateEmployeeId_iff [of "''ats0123''"]
  by (simp add: is_digit_def)

subsection \<open>The language of the name expression\<close>

lemma alpha_space_disjoint: "is_alpha c \<Longrightarrow> \<not> is_space c"
  by (auto simp: is_alpha_def is_space_def in_range_def)

lemma rx_match_alpha:
  "set (rx_match alpha s) = (case s of [] \<Rightarrow> {} | c # cs \<Rightarrow> if is_alpha c then {cs} else {})"
  by (auto simp: alpha_def is_alpha_def one_char_case split: list.splits)

lemma set_Star:
  "set (rx_match (Star a) s) =
     insert s (\<Union>t \<in> set (rx_match a s).
                 if length t < length s then set (rx_match (Star a) t) else {})"
  by (subst rx_match.simps(8)) auto

lemma star_alpha_Nil: "set (rx_match (Star alpha) []) = {[]}"
  by (subst set_Star) (simp add: rx_match_alpha)

lemma star_alpha_Cons:
  "set (rx_match (Star alpha) (c # cs)) =
     insert (c # cs) (if is_alpha c then set (rx_match (Star alpha) cs) else {})"
  by (subst set_Star) (simp add: rx_match_alpha)

lemma star_alpha_length: "u \<in> set (rx_match (Star alpha) s) \<Longrightarrow> length u \<le> length s"
  by (induction s) (auto simp: star_alpha_Nil star_alpha_Cons split: if_splits)

lemma plus_alpha:
  "set (rx_match (Plus alpha) s) =
     (case s of [] \<Rightarrow> {} | c # cs \<Rightarrow> if is_alpha c then set (rx_match (Star alpha) cs) else {})"
  unfolding Plus_def
  by (cases s; cases "rx_match alpha s") (use rx_match_alpha[of s] in \<open>auto split: if_splits\<close>)

lemma plus_alpha_length: "u \<in> set (rx_match (Plus alpha) s) \<Longrightarrow> length u < length s"
  by (cases s) (auto simp: plus_alpha dest: star_alpha_length split: if_splits)

lemma group_match:
  "set (rx_match (Cat Space (Plus alpha)) s) =
     (case s of [] \<Rightarrow> {} | c # cs \<Rightarrow> if is_space c then set (rx_match (Plus alpha) cs) else {})"
  by (cases s) simp_all

lemma star_group_Nil: "set (rx_match (Star (Cat Space (Plus alpha))) []) = {[]}"
  by (subst set_Star) (simp add: group_match)

lemma star_group_Cons:
  "set (rx_match (Star (Cat Space (Plus alpha))) (c # cs)) =
     insert (c # cs) (if is_space c
        then (\<Union>t \<in> set (rx_match (Plus alpha) cs). set (rx_match (Star (Cat Space (Plus alpha))) t))
        else {})"
proof -
  have "\<And>t. t \<in> set (rx_match (Plus alpha) cs) \<Longrightarrow> length t < length (c # cs)"
    by (drule plus_alpha_length) simp
  then show ?thesis
    by (subst set_Star) (simp add: group_match)
qed

lemma name_accept:
  "((\<exists>u \<in> set (rx_match (Star alpha) s). [] \<in> set (rx_match (Star (Cat Space (Plus alpha))) u))
      \<longleftrightarrow> accept True s)
 \<and> ((\<exists>u \<in> set (rx_match (Plus alpha) s). [] \<in> set (rx_match (Star (Cat Space (Plus alpha))) u))
      \<longleftrightarrow> accept False s)"
proof (induction s)
  case Nil
  show ?case by (simp add: star_alpha_Nil star_group_Nil plus_alpha)
next
  case (Cons c cs)
  show ?case
  proof (cases "is_alpha c")
    case True
    then have "\<not> is_space c" by (rule alpha_space_disjoint)
    with True Cons show ?thesis
      by (simp add: star_alpha_Cons plus_alpha star_group_Cons)
  next
    case False
    with Cons show ?thesis
      by (simp add: star_alpha_Cons plus_alpha star_group_Cons)
  qed
qed

lemma name_regex_accept: "rx_test name_regex t \<longleftrightarrow> accept False t"
  using name_accept[of t] by (auto simp: rx_test_def name_regex_def)

lemma accept_spec:
  "(accept True t \<longleftrightarrow> list_all (\<lambda>c. is_alpha c \<or> is_space c) t \<and> no_double is_space t
       \<and> (t \<noteq> [] \<longrightarrow> \<not> is_space (last t)))
 \<and> (accept False t \<longleftrightarrow> t \<noteq> [] \<and> \<not> is_space (hd t)
       \<and> list_all (\<lambda>c. is_alpha c \<or> is_space c) t
       \<and> no_double is_space t \<and> \<not> is_space (last t))"
proof (induction t)
  case Nil
  show ?case by simp
next
  case (Cons c cs)
  then show ?case
    by (cases cs) (auto simp: alpha_space_disjoint)
qed

lemma name_regex_spec: "rx_test name_regex t \<longleftrightarrow> letters_single_sep is_space t"
  using accept_spec[of t] by (auto simp: name_regex_accept letters_single_sep_def)

text \<open>
  Claim C4, as the specification states it, reads the separator as the space character:
  the validator would accept \<open>s\<close> exactly when the trimmed form of \<open>s\<close> has length 5 to
  30, is letters separated by single spaces, and \<open>s\<close> has at least 5 letters. The
  expression of the source separates with \<^verbatim>\<open>\s\<close>, any white space character: the name
  \<^verbatim>\<open>Alice<TAB>Smith\<close> is accepted, and it is not letters separated by single spaces.
\<close>

theorem name_with_tab_counterexample:
  "validateAlphabeticWithSpaces (''Alice'' @ [CHR 0x09] @ ''Smith'')
   \<and> \<not> (5 \<le> length (trim (''Alice'' @ [CHR 0x09] @ ''Smith''))
        \<and> length (trim (''Alice'' @ [CHR 0x09] @ ''Smith'')) \<le> 30
        \<and> letters_single_sep is_blank (trim (''Alice'' @ [CHR 0x09] @ ''Smith''))
        \<and> 5 \<le> length (filter is_alpha (''Alice'' @ [CHR 0x09] @ ''Smith'')))"
  by (simp add: validateAlphabeticWithSpaces_def Let_def name_regex_spec trim_def is_space_def
      letters_single_sep_def is_alpha_def in_range_def is_blank_def)

text \<open>
  Claim C4, amended. For every string \<open>s\<close>, the name validator accepts \<open>s\<close> if and only
  if the trimmed form of \<open>s\<close> has length between 5 and 30, consists of letters separated
  by single white space characters (no leading, trailing or double white space), and
  \<open>s\<close> contains at least 5 letters.
\<close>

theorem validateAlphabeticWithSpaces_iff:
  "validateAlphabeticWithSpaces s \<longleftrightarrow>
     5 \<le> length (trim s) \<and> length (trim s) \<le> 30 \<and> letters_single_sep is_space (trim s)
     \<and> 5 \<le> length (filter is_alpha s)"
  by (simp add: validateAlphabeticWithSpaces_def Let_def name_regex_spec)

theorem validateAlphabeticWithSpaces_iff_witness:
  "validateAlphabeticWithSpaces ''  Alice Smith ''
   \<and> \<not> validateAlphabeticWithSpaces ''Alice  Smith''
   \<and> \<not> validateAlphabeticWithSpaces ''A B C D''
   \<and> \<not> validateAlphabeticWithSpaces ''Alic3 Smith''"
  using validateAlphabeticWithSpaces_iff [of "''  Alice Smith ''"]
    validateAlphabeticWithSpaces_iff [of "''Alice  Smith''"]
    validateAlphabeticWithSpaces_iff [of "''A B C D''"]
    validateAlphabeticWithSpaces_iff [of "''Alic3 Smith''"]
  by (simp add: trim_def is_space_def letters_single_sep_def is_alpha_def in_range_def)

section \<open>Properties of the derived values\<close>

lemma split_dash_single: "CHR ''-'' \<notin> set a \<Longrightarrow> split_dash a = [a]"
  by (induction a) auto

lemma split_dash_append: "CHR ''-'' \<notin> set a \<Longrightarrow> split_dash (a @ CHR ''-'' # b) = a # split_dash b"
  by (induction a) auto

lemma digit_not_dash: "list_all is_digit s \<Longrightarrow> CHR ''-'' \<notin> set s"
  by (auto simp: list_all_iff is_digit_def)

lemma split_period_key:
  "list_all is_digit ys \<Longrightarrow> list_all is_digit ms \<Longrightarrow> split_dash (ys @ CHR ''-'' # ms) = [ys, ms]"
  by (simp add: split_dash_append split_dash_single digit_not_dash)

lemma digit_val_le: "is_digit c \<Longrightarrow> digit_val c \<le> 9"
  by (auto simp: is_digit_def digit_val_def)

lemma dec_value_4: "length ys = 4 \<Longrightarrow> list_all is_digit ys \<Longrightarrow> dec_value ys \<le> 9999"
proof -
  assume l: "length ys = 4" and d: "list_all is_digit ys"
  from l obtain a b c e where ys: "ys = [a, b, c, e]"
    by (auto simp: numeral_eq_Suc length_Suc_conv)
  from d ys have "digit_val a \<le> 9" "digit_val b \<le> 9" "digit_val c \<le> 9" "digit_val e \<le> 9"
    by (simp_all add: digit_val_le)
  then show ?thesis by (simp add: ys dec_value_def)
qed

lemma InLeapYear_leap_year: "InLeapYear y = leap_year y"
  by (auto simp: InLeapYear_def DaysInYear_def leap_year_def)

lemma mod4_century: "(1900 + y) mod 4 = (y::int) mod 4"
proof -
  have "(1900 + y) mod 4 = (y + 475 * 4) mod 4" by (simp add: add.commute)
  also have "\<dots> = y mod 4" by (rule mod_mult_self1)
  finally show ?thesis .
qed

lemma mod100_century: "(1900 + y) mod 100 = (y::int) mod 100"
proof -
  have "(1900 + y) mod 100 = (y + 19 * 100) mod 100" by (simp add: add.commute)
  also have "\<dots> = y mod 100" by (rule mod_mult_self1)
  finally show ?thesis .
qed

lemma legacy_year_leap:
  assumes "0 < y" and "y \<le> 99"
  shows "leap_year (1900 + y) = leap_year y"
proof -
  have "y mod 100 = y" using assms by simp
  then have "y mod 100 \<noteq> 0" using assms by simp
  then show ?thesis
    unfolding leap_year_def mod4_century mod100_century by simp
qed

lemma Date_day0:
  assumes "1 \<le> y" "y \<le> 9999" "1 \<le> m" "m \<le> 12"
  shows "Date_local y m 0 = Some d \<Longrightarrow> getDate d = calendar_days y m"
proof -
  assume D: "Date_local y m 0 = Some d"
  define yr where "yr = (if 0 \<le> y \<and> y \<le> 99 then 1900 + y else y)"
  have leap: "InLeapYear yr = leap_year y"
    using assms legacy_year_leap[of y] by (cases "y \<le> 99") (simp_all add: yr_def InLeapYear_leap_year)
  show ?thesis
  proof (cases "m = 12")
    case True
    with D assms show ?thesis
      by (auto simp: Date_local_def prev_day_def getDate_def calendar_days_def)
  next
    case False
    with assms have m: "m div 12 = 0" "m mod 12 = m" by auto
    from D assms False have "d = \<lparr>fullYear = yr, monthIndex = m - 1, dayOfMonth = month_length yr (m - 1)\<rparr>"
      by (auto simp: Date_local_def prev_day_def m yr_def Let_def)
    then show ?thesis using assms False leap
      by (auto simp: getDate_def month_length_def calendar_days_def)
  qed
qed

text \<open>
  Claim C6, amended. For every period key \<^verbatim>\<open>YYYY-MM\<close> whose year is 0001 to 9999 and whose
  month is 01 to 12, \<^verbatim>\<open>getDaysInMonth\<close> returns the number of calendar days of that month
  of that year, leap years included. (A year from 1 to 99 is taken by the date
  constructor as 1901 to 1999, whose months have the same lengths.)
\<close>

theorem getDaysInMonth_calendar:
  assumes "length ys = 4" and "list_all is_digit ys" and "length ms = 2" and "list_all is_digit ms"
    and "dec_value ys \<noteq> 0" and "1 \<le> dec_value ms" and "dec_value ms \<le> 12"
  shows "getDaysInMonth (ys @ ''-'' @ ms) = Some (calendar_days (int (dec_value ys)) (int (dec_value ms)))"
proof -
  have ny: "Number_str ys = Some (int (dec_value ys))" and nm: "Number_str ms = Some (int (dec_value ms))"
    using assms by (auto simp: Number_str_def)
  have y: "1 \<le> int (dec_value ys)" "int (dec_value ys) \<le> 9999"
    using assms dec_value_4[of ys] by auto
  have m: "1 \<le> int (dec_value ms)" "int (dec_value ms) \<le> 12"
    using assms by auto
  obtain d where d: "Date_local (int (dec_value ys)) (int (dec_value ms)) 0 = Some d"
    using y m by (auto simp: Date_local_def)
  from Date_day0[OF y m d] d show ?thesis
    using assms by (simp add: getDaysInMonth_def split_period_key ny nm)
qed

theorem getDaysInMonth_calendar_witness:
  "getDaysInMonth ''2024-02'' = Some 29 \<and> getDaysInMonth ''2023-02'' = Some 28
   \<and> getDaysInMonth ''2024-04'' = Some 30"
  using getDaysInMonth_calendar[of "''2024''" "''02''"] getDaysInMonth_calendar[of "''2023''" "''02''"]
    getDaysInMonth_calendar[of "''2024''" "''04''"]
  by (simp add: is_digit_def dec_value_def digit_val_def calendar_days_def leap_year_def)

text \<open>
  Claim C6 as stated covers every period key \<^verbatim>\<open>YYYY-MM\<close> with a month from 01 to 12. The
  year 0000 is taken by the date constructor as 1900, which is not a leap year, while
  the year 0 of the calendar is one: for \<^verbatim>\<open>0000-02\<close> the result is 28, not 29.
\<close>

theorem getDaysInMonth_year_zero_counterexample:
  "getDaysInMonth ''0000-02'' = Some 28 \<and> calendar_days 0 2 = 29"
  by (simp add: getDaysInMonth_def Number_str_def is_digit_def dec_value_def digit_val_def
      Date_local_def prev_day_def getDate_def month_length_def InLeapYear_def DaysInYear_def
      calendar_days_def leap_year_def)

section \<open>Properties of the loss-of-pay deduction\<close>










section \<open>Properties of the create handler\<close>

lemma first_failure_simps [simp]:
  "first_failure [] = None"
  "first_failure (None # fs) = first_failure fs"
  "first_failure (Some f # fs) = Some f"
  by (simp_all add: first_failure_def List.map_filter_simps split: list.splits)

lemma first_failure_mem: "first_failure fs = Some f \<Longrightarrow> Some f \<in> set fs"
proof (induction fs)
  case Nil
  then show ?case by simp
next
  case (Cons a fs)
  then show ?case by (cases a) auto
qed

lemma first_failure_None: "first_failure fs = None \<longleftrightarrow> (\<forall>f \<in> set fs. f = None)"
proof (induction fs)
  case Nil
  show ?case by simp
next
  case (Cons a fs)
  then show ?case by (cases a) auto
qed

lemma required_check_Reject:
  "required_check req = Some (Reject r) \<Longrightarrow> r = bad_request ''Employee ID and Month/Year are required''"
  by (auto simp: required_check_def split: if_splits)

lemma employee_id_check_Reject:
  "employee_id_check P req = Some (Reject r) \<Longrightarrow> r = bad_request ''Invalid Employee ID format (e.g., ATS0123)''"
  by (auto simp: employee_id_check_def split: sum.splits if_splits)

lemma optional_check_Reject: "optional_check valid msg x = Some (Reject r) \<Longrightarrow> r = bad_request msg"
  by (auto simp: optional_check_def split: sum.splits if_splits)

lemma range_check_Reject: "range_check P msg x = Some (Reject r) \<Longrightarrow> r = bad_request msg"
  by (auto simp: range_check_def split: option.splits if_splits)

lemma validate_scalars_Reject:
  assumes "validate_scalars P req = Some (Reject r)"
  shows "\<exists>m \<in> set scalar_messages. r = bad_request m"
proof -
  from first_failure_mem[OF assms[unfolded validate_scalars_def]]
  show ?thesis
    by (auto simp: scalar_messages_def
        dest!: required_check_Reject[OF sym] employee_id_check_Reject[OF sym]
          optional_check_Reject[OF sym] range_check_Reject[OF sym])
qed

lemma check_items_Reject:
  "check_items kind P xs = Some (Reject r) \<Longrightarrow>
     \<exists>name. r = bad_request (''Invalid '' @ kind @ '' component name: '' @ name)
          \<or> r = bad_request (''Invalid '' @ kind @ '' amount for '' @ name)"
  by (induction xs) (auto split: sum.splits option.splits if_splits)

lemma earnings_check_Reject:
  "earnings_check P req = Some (Reject r) \<Longrightarrow>
     r = bad_request ''At least one earning is required''
     \<or> (\<exists>name. r = bad_request (''Invalid earning component name: '' @ name)
          \<or> r = bad_request (''Invalid earning amount for '' @ name))"
  by (auto simp: earnings_check_def split: if_splits option.splits dest!: check_items_Reject)

lemma deductions_check_Reject:
  "deductions_check P req = Some (Reject r) \<Longrightarrow>
     (\<exists>name. r = bad_request (''Invalid deduction component name: '' @ name)
          \<or> r = bad_request (''Invalid deduction amount for '' @ name))"
  by (auto simp: deductions_check_def split: option.splits dest!: check_items_Reject)

lemma validate_request_cases:
  assumes "validate_request P req = Some f"
  shows "validate_scalars P req = Some f
       \<or> (validate_scalars P req = None \<and> earnings_check P req = Some f)
       \<or> (validate_scalars P req = None \<and> earnings_check P req = None
            \<and> deductions_check P req = Some f)"
  using assms unfolding validate_request_def
  by (cases "validate_scalars P req"; cases "earnings_check P req"; cases "deductions_check P req") auto

lemma validate_request_None:
  "validate_request P req = None \<longleftrightarrow>
     validate_scalars P req = None \<and> earnings_check P req = None \<and> deductions_check P req = None"
  unfolding validate_request_def by (simp add: first_failure_None)

lemma rejection_bad_request:
  "m \<noteq> ''Payslip already exists for this Employee ID and Month/Year'' \<Longrightarrow>
     is_validation_rejection (bad_request m)"
  by (simp add: is_validation_rejection_def bad_request_def duplicate_error_def)

lemma validate_scalars_rejection:
  "validate_scalars P req = Some (Reject r) \<Longrightarrow> is_validation_rejection r"
  by (drule validate_scalars_Reject) (auto simp: scalar_messages_def intro!: rejection_bad_request)

lemma earnings_check_rejection:
  "earnings_check P req = Some (Reject r) \<Longrightarrow> is_validation_rejection r"
  by (drule earnings_check_Reject) (auto intro!: rejection_bad_request)

lemma deductions_check_rejection:
  "deductions_check P req = Some (Reject r) \<Longrightarrow> is_validation_rejection r"
  by (drule deductions_check_Reject) (auto intro!: rejection_bad_request)

lemma validate_Reject_rejection:
  assumes "validate_request P req = Some (Reject r)"
  shows "is_validation_rejection r"
  using validate_request_cases[OF assms]
  by (auto dest: validate_scalars_rejection earnings_check_rejection deductions_check_rejection)

lemma validate_Reject_status: "validate_request P req = Some (Reject r) \<Longrightarrow> status r = 400"
  using validate_Reject_rejection by (simp add: is_validation_rejection_def)

lemma post_payslips_status_201:
  "status (snd (post_payslips P others now s req)) = 201 \<Longrightarrow> validate_request P req = None"
  by (auto simp: post_payslips_def internal_error_def
      dest: validate_Reject_status split: option.splits failure.splits)

lemma post_payslips_failed_validation:
  "validate_request P req = Some f \<Longrightarrow>
     post_payslips P others now s req = (s, case f of Reject r \<Rightarrow> r | Throw e \<Rightarrow> internal_error e)"
  by (simp add: post_payslips_def split: failure.splits)

lemma select_pair_nonempty:
  "db_select_pair s (Some eid) (Some my) \<noteq> [] \<longleftrightarrow>
     (\<exists>r \<in> set (rows s). employee_id r = eid \<and> month_year r = my)"
  by (auto simp: db_select_pair_def filter_empty_conv)

lemma duplicate_error_distinct:
  "bad_request ''At least one earning is required'' \<noteq> duplicate_error"
  "internal_error e \<noteq> duplicate_error"
  by (simp_all add: duplicate_error_def bad_request_def internal_error_def)


lemma db_insert_failure_rows:
  "db_insert P s now p = (s', Inl e) \<Longrightarrow> rows s' = rows s"
  unfolding db_insert_def Let_def
  by (auto split: prod.splits option.splits)



lemma sample_passes: "validate_request sample_platform sample_request = None"
  by code_simp

lemma sample_without_earnings:
  "validate_request sample_platform (sample_request\<lparr>earnings := Arr []\<rparr>)
     = Some (Reject (bad_request ''At least one earning is required''))"
  by code_simp

lemma insert_sample_empty:
  "db_insert sample_platform empty_db ''2024-02-01T09:00:00.000Z'' (insert_values sample_request)
     = (one_row_db, Inr 1)"
  by code_simp

lemma insert_sample_conflict:
  "db_insert sample_platform one_row_db ''2024-02-01T09:00:01.000Z'' (insert_values sample_request)
     = (one_row_db\<lparr>next_id := 3\<rparr>, Inl (UniqueViolation ''unique_employee_month_year''))"
  by code_simp

lemma sample_pair:
  "param_text sample_platform (employeeId sample_request) = Some ''ATS0123''"
  "param_text sample_platform (monthYear sample_request) = Some ''2024-01''"
  by (simp_all add: sample_request_def param_text_def)

lemma select_pair_empty_db: "db_select_pair empty_db eid my = []"
  by (simp add: db_select_pair_def empty_db_def)

lemma select_pair_one_row_db:
  "db_select_pair one_row_db (Some ''ATS0123'') (Some ''2024-01'') = [sample_row]"
  by (simp add: db_select_pair_def one_row_db_def sample_row_def)

lemma create_sample:
  "create sample_platform ''2024-02-01T09:00:00.000Z'' empty_db sample_request =
     (one_row_db, Response 201 (CreatedBody 1 ''Payslip created successfully''))"
  by (simp add: create_def post_payslips_def sample_passes select_pair_empty_db insert_sample_empty)

lemma concurrent_create_empty: "concurrent_create empty_db = one_row_db"
  by (simp add: concurrent_create_def create_sample)

subsection \<open>Duplicates\<close>

text \<open>
  Claim C1 as stated promises the Duplicate error for every create request whose employee
  id and period key are those of a stored payslip. The handler validates before it looks
  the pair up: a request with that pair and an empty earnings sequence is answered with
  the rejection of the earnings check, not with the Duplicate error.
\<close>

theorem create_invalid_duplicate_counterexample:
  "param_text sample_platform (employeeId (sample_request\<lparr>earnings := Arr []\<rparr>)) = Some ''ATS0123''
   \<and> param_text sample_platform (monthYear (sample_request\<lparr>earnings := Arr []\<rparr>)) = Some ''2024-01''
   \<and> db_select_pair one_row_db (Some ''ATS0123'') (Some ''2024-01'') = [sample_row]
   \<and> snd (create sample_platform ''2024-02-01T09:05:00.000Z'' one_row_db
            (sample_request\<lparr>earnings := Arr []\<rparr>))
       = bad_request ''At least one earning is required''
   \<and> bad_request ''At least one earning is required'' \<noteq> duplicate_error"
  by (simp add: create_def post_payslips_def sample_without_earnings select_pair_one_row_db
      duplicate_error_distinct) (simp add: sample_request_def param_text_def)

text \<open>
  Claim C1, amended. For every stored state and every create request whose employee id
  and period key are those of a stored payslip, the storage is unchanged and the request
  does not succeed; when the request passes the validation, it fails with the Duplicate
  error. This holds whatever other requests do meanwhile. In particular, creating the
  payslip of \<^verbatim>\<open>ATS0123\<close> for \<^verbatim>\<open>2024-01\<close> twice makes the second call fail with the Duplicate
  error, and the table keeps its one row.
\<close>

theorem create_rejects_duplicate:
  assumes "param_text P (employeeId req) = Some eid" and "param_text P (monthYear req) = Some my"
    and "\<exists>r \<in> set (rows s). employee_id r = eid \<and> month_year r = my"
  shows "fst (post_payslips P others now s req) = s
       \<and> status (snd (post_payslips P others now s req)) \<noteq> 201
       \<and> (validate_request P req = None
            \<longrightarrow> post_payslips P others now s req = (s, duplicate_error))"
proof -
  have sel: "db_select_pair s (Some eid) (Some my) \<noteq> []"
    using assms(3) by (simp add: select_pair_nonempty)
  show ?thesis
  proof (cases "validate_request P req")
    case None
    with sel assms(1,2) show ?thesis
      by (simp add: post_payslips_def duplicate_error_def bad_request_def)
  next
    case (Some f)
    show ?thesis
    proof (cases f)
      case (Reject r)
      with Some validate_Reject_status[of P req r] show ?thesis
        by (simp add: post_payslips_failed_validation)
    next
      case (Throw e)
      with Some show ?thesis
        by (simp add: post_payslips_failed_validation internal_error_def)
    qed
  qed
qed

theorem create_rejects_duplicate_witness:
  "create sample_platform ''2024-02-01T09:00:00.000Z'' empty_db sample_request =
     (one_row_db, Response 201 (CreatedBody 1 ''Payslip created successfully''))
   \<and> create sample_platform ''2024-02-01T09:05:00.000Z'' one_row_db sample_request
     = (one_row_db, duplicate_error)"
proof -
  have r: "\<exists>r \<in> set (rows one_row_db). employee_id r = ''ATS0123'' \<and> month_year r = ''2024-01''"
    by (simp add: one_row_db_def sample_row_def)
  from create_rejects_duplicate [OF sample_pair r, of "\<lambda>s. s" "''2024-02-01T09:05:00.000Z''"]
    sample_passes
  show ?thesis by (simp add: create_def[symmetric] create_sample)
qed

text \<open>
  Claim C2 as stated promises the Duplicate error when the pre-check finds nothing and
  the insert is then rejected by the uniqueness constraint. No handler looks at the kind
  of a storage error: the \<^verbatim>\<open>catch\<close> block answers all of them with status 500. Here
  another request creates the same payslip between the pre-check and the insert.
\<close>

theorem concurrent_insert_counterexample:
  "validate_request sample_platform sample_request = None
   \<and> db_select_pair empty_db (param_text sample_platform (employeeId sample_request))
        (param_text sample_platform (monthYear sample_request)) = []
   \<and> snd (db_insert sample_platform (concurrent_create empty_db) ''2024-02-01T09:00:01.000Z''
            (insert_values sample_request))
       = Inl (UniqueViolation ''unique_employee_month_year'')
   \<and> snd (post_payslips sample_platform concurrent_create ''2024-02-01T09:00:01.000Z'' empty_db
            sample_request)
       = Response 500 (InternalBody (DatabaseError (UniqueViolation ''unique_employee_month_year'')))
   \<and> snd (post_payslips sample_platform concurrent_create ''2024-02-01T09:00:01.000Z'' empty_db
            sample_request)
       \<noteq> duplicate_error"
  by (simp add: sample_passes select_pair_empty_db concurrent_create_empty insert_sample_conflict
      post_payslips_def internal_error_def duplicate_error_def bad_request_def)

text \<open>
  Claim C2, amended. For every create request that passes the validation and the
  duplicate pre-check, and whose insert is rejected by the uniqueness constraint on
  (employee id, period key), the response is the internal failure of the \<^verbatim>\<open>catch\<close> block
  (status 500, carrying the storage error), not the Duplicate error, and the losing
  request adds no row.
\<close>

theorem insert_conflict_is_internal_error:
  assumes "validate_request P req = None"
    and "db_select_pair s (param_text P (employeeId req)) (param_text P (monthYear req)) = []"
    and "snd (db_insert P (others s) now (insert_values req))
           = Inl (UniqueViolation ''unique_employee_month_year'')"
  shows "snd (post_payslips P others now s req)
           = internal_error (DatabaseError (UniqueViolation ''unique_employee_month_year''))
       \<and> snd (post_payslips P others now s req) \<noteq> duplicate_error
       \<and> rows (fst (post_payslips P others now s req)) = rows (others s)"
proof -
  obtain s' where ins: "db_insert P (others s) now (insert_values req)
      = (s', Inl (UniqueViolation ''unique_employee_month_year''))"
    using assms(3) by (cases "db_insert P (others s) now (insert_values req)") simp
  from db_insert_failure_rows[OF ins] have "rows s' = rows (others s)" .
  with assms ins show ?thesis
    by (simp add: post_payslips_def duplicate_error_distinct)
qed

theorem insert_conflict_is_internal_error_witness:
  "snd (post_payslips sample_platform concurrent_create ''2024-02-01T09:00:01.000Z'' empty_db
          sample_request)
     = internal_error (DatabaseError (UniqueViolation ''unique_employee_month_year''))
   \<and> rows (fst (post_payslips sample_platform concurrent_create ''2024-02-01T09:00:01.000Z''
                  empty_db sample_request))
     = [sample_row]"
proof -
  have c: "snd (db_insert sample_platform (concurrent_create empty_db) ''2024-02-01T09:00:01.000Z''
             (insert_values sample_request)) = Inl (UniqueViolation ''unique_employee_month_year'')"
    by (simp add: concurrent_create_empty insert_sample_conflict)
  from insert_conflict_is_internal_error [of sample_platform sample_request empty_db
      concurrent_create "''2024-02-01T09:00:01.000Z''", OF sample_passes select_pair_empty_db c]
  show ?thesis by (simp add: concurrent_create_empty one_row_db_def)
qed

subsection \<open>Earnings and deductions\<close>

lemma earnings_check_absent:
  assumes "earnings req = Undefined \<or> earnings req = Null \<or> earnings req = Arr []"
  shows "earnings_check P req = Some (Reject (bad_request ''At least one earning is required''))"
  using assms by (auto simp: earnings_check_def js_length_def)

lemma earnings_check_None:
  assumes "earnings_check P req = None"
  shows "(\<exists>e es. earnings req = Arr (e # es)) \<or> (\<exists>c cs. earnings req = Str (c # cs))"
proof (cases "earnings req")
  case (Arr xs)
  with assms show ?thesis
    by (cases xs) (auto simp: earnings_check_def js_length_def split: if_splits)
next
  case (Str t)
  with assms show ?thesis
    by (cases t) (auto simp: earnings_check_def js_length_def split: if_splits)
qed (use assms in \<open>auto simp: earnings_check_def js_length_def iterate_def split: if_splits\<close>)

lemma earnings_check_string:
  "earnings req = Str (c # cs) \<Longrightarrow> earnings_check P req = Some (Throw (CannotReadProperty ''match''))"
  by (simp add: earnings_check_def js_length_def iterate_def get_property_def
      validateComponentName_of_def validateAlphabeticWithSpaces_of_def)

lemma earnings_check_None_array:
  assumes "earnings_check P req = None"
  shows "\<exists>e es. earnings req = Arr (e # es)"
  using earnings_check_None[OF assms] earnings_check_string[of req _ _ P] assms by auto

lemma optional_check_text:
  "text_or_absent x \<Longrightarrow> optional_check validateAlphabeticWithSpaces_of msg x = Some (Throw e) \<Longrightarrow> False"
  "text_or_absent x \<Longrightarrow> optional_check validateBankAccount_of msg x = Some (Throw e) \<Longrightarrow> False"
  "text_or_absent x \<Longrightarrow> optional_check (validatePAN_of P) msg x = Some (Throw e) \<Longrightarrow> False"
  by (cases x; simp add: text_or_absent_def optional_check_def validateAlphabeticWithSpaces_of_def
      validateBankAccount_of_def validatePAN_of_def split: if_splits)+

lemma employee_id_check_text:
  "text_or_absent (employeeId req) \<Longrightarrow> employee_id_check P req = Some (Throw e) \<Longrightarrow> False"
  by (cases "employeeId req"; simp add: text_or_absent_def employee_id_check_def
      validateEmployeeId_of_def split: if_splits)

lemma range_check_number:
  "number_or_absent x \<Longrightarrow> range_check P msg x = Some (Throw e) \<Longrightarrow> False"
  by (cases x; simp add: number_or_absent_def range_check_def ToNumber_def split: if_splits)

lemma required_check_no_throw: "required_check req = Some (Throw e) \<Longrightarrow> False"
  by (simp add: required_check_def split: if_splits)

lemma plain_scalars_no_throw:
  assumes "plain_scalars req"
  shows "validate_scalars P req \<noteq> Some (Throw e)"
proof
  assume "validate_scalars P req = Some (Throw e)"
  from first_failure_mem[OF this[unfolded validate_scalars_def]] assms
  show False
    by (auto simp: plain_scalars_def
        dest: optional_check_text[OF _ sym] employee_id_check_text[OF _ sym]
          range_check_number[OF _ sym] required_check_no_throw[OF sym])
qed

lemma validate_request_absent_earnings:
  assumes "earnings req = Undefined \<or> earnings req = Null \<or> earnings req = Arr []"
  shows "validate_request P req =
     (case validate_scalars P req of
        None \<Rightarrow> Some (Reject (bad_request ''At least one earning is required''))
      | Some f \<Rightarrow> Some f)"
  by (simp add: validate_request_def earnings_check_absent[OF assms] split: option.splits)

lemma validate_scalars_deductions [simp]:
  "validate_scalars P (req\<lparr>deductions := d\<rparr>) = validate_scalars P req"
  by (simp add: validate_scalars_def required_check_def employee_id_check_def)

lemma earnings_check_deductions [simp]:
  "earnings_check P (req\<lparr>deductions := d\<rparr>) = earnings_check P req"
  by (simp add: earnings_check_def)

lemma deductions_check_empty [simp]: "deductions_check P (req\<lparr>deductions := Arr []\<rparr>) = None"
  by (simp add: deductions_check_def iterate_def)

lemma deductions_check_absent:
  "deductions req = Undefined \<Longrightarrow> deductions_check P req = Some (Throw (NotIterable ''deductions''))"
  by (simp add: deductions_check_def iterate_def)

lemma validate_request_empty_deductions:
  "validate_request P (req\<lparr>deductions := Arr []\<rparr>) =
     first_failure [validate_scalars P req, earnings_check P req]"
  by (cases "validate_scalars P req"; cases "earnings_check P req"; simp add: validate_request_def)

lemma validate_request_passes_empty_deductions:
  assumes "validate_request P req = None"
  shows "validate_request P (req\<lparr>deductions := Arr []\<rparr>) = None"
  using assms unfolding validate_request_empty_deductions
  by (cases "validate_scalars P req"; cases "earnings_check P req"; simp add: validate_request_def)

lemma sample_plain: "plain_scalars sample_request"
  by (simp add: plain_scalars_def sample_request_def text_or_absent_def number_or_absent_def)

lemma sample_number_account:
  "validate_request sample_platform
     (sample_request\<lparr>earnings := Arr [], accountNo := Num (Fin 123456789012)\<rparr>)
   = Some (Throw (NotAFunction ''account.trim''))"
  by code_simp

lemma sample_scalars_pass:
  "validate_scalars sample_platform (sample_request\<lparr>earnings := Arr []\<rparr>) = None"
  by code_simp

lemma sample_no_collections:
  "validate_request sample_platform (sample_request\<lparr>earnings := Undefined, deductions := Undefined\<rparr>)
     = Some (Reject (bad_request ''At least one earning is required''))"
  by code_simp

lemma sample_empty_deductions:
  "validate_request sample_platform (sample_request\<lparr>deductions := Arr []\<rparr>) = None"
  by code_simp

lemma insert_sample_text_deductions:
  "snd (create sample_platform ''2024-02-01T09:00:00.000Z'' empty_db
          (sample_request\<lparr>deductions := Str []\<rparr>))
     = Response 201 (CreatedBody 1 ''Payslip created successfully'')"
  by code_simp

text \<open>
  Claim C7 as stated promises a validation rejection for every request with an empty
  earnings sequence, whatever the other fields are. The checks of the scalar fields run
  before the earnings check, and some of them call string methods on the field: with an
  account number given as a JSON number, \<^verbatim>\<open>account.trim\<close> is not a function, the
  handler throws, and the response is the internal failure with status 500.
\<close>

theorem earnings_number_account_counterexample:
  "earnings (sample_request\<lparr>earnings := Arr [], accountNo := Num (Fin 123456789012)\<rparr>) = Arr []
   \<and> create sample_platform ''2024-02-01T09:00:00.000Z'' empty_db
         (sample_request\<lparr>earnings := Arr [], accountNo := Num (Fin 123456789012)\<rparr>)
       = (empty_db, Response 500 (InternalBody (NotAFunction ''account.trim'')))
   \<and> \<not> is_validation_rejection (Response 500 (InternalBody (NotAFunction ''account.trim'')))"
  by (simp add: create_def post_payslips_failed_validation[OF sample_number_account]
      internal_error_def is_validation_rejection_def)

text \<open>
  Claim C7, amended. For every create request whose earnings sequence is empty or
  absent: the storage is unchanged and the request does not succeed; the response is a
  validation rejection (status 400, not the Duplicate error), unless a check of a scalar
  field throws, and then it is the internal failure of that exception; no check throws
  when the scalar fields are plain (each text field that is given is a string, the day
  counts numbers or strings), so for such requests the response is a validation
  rejection whatever the values of the fields are; and when the scalar checks pass, the
  rejection is that of the earnings check. A request that passes the validation still
  passes it with its deductions replaced by the empty sequence; and a request succeeds
  (status 201) only when its earnings are a non-empty array.
\<close>

theorem earnings_required:
  "((earnings req = Undefined \<or> earnings req = Null \<or> earnings req = Arr []) \<longrightarrow>
       fst (post_payslips P others now s req) = s
     \<and> status (snd (post_payslips P others now s req)) \<noteq> 201
     \<and> (is_validation_rejection (snd (post_payslips P others now s req))
        \<or> (\<exists>e. validate_scalars P req = Some (Throw e)
               \<and> snd (post_payslips P others now s req) = internal_error e))
     \<and> (plain_scalars req \<longrightarrow> is_validation_rejection (snd (post_payslips P others now s req)))
     \<and> (validate_scalars P req = None \<longrightarrow>
          snd (post_payslips P others now s req) = bad_request ''At least one earning is required''))
   \<and> (validate_request P req = None \<longrightarrow> validate_request P (req\<lparr>deductions := Arr []\<rparr>) = None)
   \<and> (status (snd (post_payslips P others now s req)) = 201 \<longrightarrow>
        (\<exists>e es. earnings req = Arr (e # es)))"
proof (intro conjI impI)
  assume a: "earnings req = Undefined \<or> earnings req = Null \<or> earnings req = Arr []"
  note v = validate_request_absent_earnings[OF a, of P]
  show "fst (post_payslips P others now s req) = s"
    using v by (cases "validate_scalars P req") (simp_all add: post_payslips_failed_validation)
  show "status (snd (post_payslips P others now s req)) \<noteq> 201"
    using post_payslips_status_201[of P others now s req] v
    by (cases "validate_scalars P req") auto
  show c: "is_validation_rejection (snd (post_payslips P others now s req))
        \<or> (\<exists>e. validate_scalars P req = Some (Throw e)
               \<and> snd (post_payslips P others now s req) = internal_error e)"
  proof (cases "validate_scalars P req")
    case None
    with v show ?thesis
      by (simp add: post_payslips_failed_validation rejection_bad_request)
  next
    case (Some f)
    with v have "validate_request P req = Some f" by simp
    from post_payslips_failed_validation[OF this] Some show ?thesis
      by (cases f) (auto dest: validate_scalars_rejection)
  qed
  show "is_validation_rejection (snd (post_payslips P others now s req))" if "plain_scalars req"
    using c plain_scalars_no_throw[OF that, of P] by auto
  show "snd (post_payslips P others now s req) = bad_request ''At least one earning is required''"
    if "validate_scalars P req = None"
    using v that by (simp add: post_payslips_failed_validation)
next
  assume "validate_request P req = None"
  then show "validate_request P (req\<lparr>deductions := Arr []\<rparr>) = None"
    by (rule validate_request_passes_empty_deductions)
next
  assume "status (snd (post_payslips P others now s req)) = 201"
  from post_payslips_status_201[OF this] show "\<exists>e es. earnings req = Arr (e # es)"
    by (auto simp: validate_request_None dest: earnings_check_None_array)
qed

theorem earnings_required_witness:
  "create sample_platform ''2024-02-01T09:05:00.000Z'' one_row_db
      (sample_request\<lparr>earnings := Arr []\<rparr>)
     = (one_row_db, bad_request ''At least one earning is required'')
   \<and> is_validation_rejection (bad_request ''At least one earning is required'')
   \<and> validate_request sample_platform (sample_request\<lparr>deductions := Arr []\<rparr>) = None
   \<and> (\<exists>e es. earnings sample_request = Arr (e # es))"
proof -
  define r where "r = sample_request\<lparr>earnings := Arr []\<rparr>"
  have p: "plain_scalars r"
    using sample_plain by (simp add: plain_scalars_def r_def)
  have e: "earnings r = Arr []" by (simp add: r_def)
  have n: "validate_scalars sample_platform r = None"
    by (simp add: r_def sample_scalars_pass)
  have c: "status (snd (post_payslips sample_platform (\<lambda>s. s) ''2024-02-01T09:00:00.000Z''
      empty_db sample_request)) = 201"
    using create_sample by (simp add: create_def)
  from earnings_required [of r sample_platform "\<lambda>s. s" "''2024-02-01T09:05:00.000Z''" one_row_db]
    e p n
  have 1: "create sample_platform ''2024-02-01T09:05:00.000Z'' one_row_db r
     = (one_row_db, bad_request ''At least one earning is required'')
     \<and> is_validation_rejection (bad_request ''At least one earning is required'')"
    by (auto simp: create_def[symmetric] prod_eq_iff)
  from earnings_required [of sample_request sample_platform "\<lambda>s. s"
      "''2024-02-01T09:00:00.000Z''" empty_db] sample_passes c
  have 2: "validate_request sample_platform (sample_request\<lparr>deductions := Arr []\<rparr>) = None
     \<and> (\<exists>e es. earnings sample_request = Arr (e # es))"
    by simp
  from 1 2 show ?thesis by (simp add: r_def)
qed

text \<open>
  Claim C10 as stated promises the internal failure, and no field-specific rejection,
  for every request that leaves out the deductions. A request that leaves out the
  earnings as well is answered by the earnings check, which comes first: status 400,
  \<^verbatim>\<open>At least one earning is required\<close>. Nor is an array the only value of the
  deductions that is accepted: the empty string can be iterated, and the request
  succeeds.
\<close>

theorem missing_collections_counterexample:
  "deductions (sample_request\<lparr>earnings := Undefined, deductions := Undefined\<rparr>) = Undefined
   \<and> create sample_platform ''2024-02-01T09:00:00.000Z'' empty_db
        (sample_request\<lparr>earnings := Undefined, deductions := Undefined\<rparr>)
       = (empty_db, Response 400 (ErrorBody ''At least one earning is required''))
   \<and> snd (create sample_platform ''2024-02-01T09:00:00.000Z'' empty_db
        (sample_request\<lparr>deductions := Str []\<rparr>))
       = Response 201 (CreatedBody 1 ''Payslip created successfully'')"
  by (simp add: create_def[symmetric] insert_sample_text_deductions)
     (simp add: create_def post_payslips_failed_validation[OF sample_no_collections] bad_request_def)

text \<open>
  Claim C10, amended. For every create request whose body leaves out the deductions, the
  storage is unchanged, the request does not succeed, and the response is never a
  rejection of a deduction; when the earnings and every other field are valid (the
  request would pass with an empty deductions array), iterating the absent deductions
  throws and the response is the internal failure with status 500; otherwise the
  outcome is that of the earlier check that fails, the same as with an empty deductions
  array. A request succeeds only with deductions that can be iterated: an array
  (possibly empty) or the empty string.
\<close>

theorem missing_deductions:
  "(deductions req = Undefined \<longrightarrow>
       fst (post_payslips P others now s req) = s
     \<and> status (snd (post_payslips P others now s req)) \<noteq> 201
     \<and> snd (post_payslips P others now s req)
          \<noteq> bad_request (''Invalid deduction component name: '' @ c)
     \<and> snd (post_payslips P others now s req)
          \<noteq> bad_request (''Invalid deduction amount for '' @ c)
     \<and> (validate_request P (req\<lparr>deductions := Arr []\<rparr>) = None \<longrightarrow>
          post_payslips P others now s req = (s, internal_error (NotIterable ''deductions'')))
     \<and> (\<forall>f. validate_request P (req\<lparr>deductions := Arr []\<rparr>) = Some f \<longrightarrow>
          validate_request P req = Some f))
   \<and> (status (snd (post_payslips P others now s req)) = 201 \<longrightarrow>
        (\<exists>ds. deductions req = Arr ds) \<or> deductions req = Str [])"
proof (intro conjI impI allI)
  assume a: "deductions req = Undefined"
  have v: "validate_request P req =
     (case validate_request P (req\<lparr>deductions := Arr []\<rparr>) of
        None \<Rightarrow> Some (Throw (NotIterable ''deductions'')) | Some f \<Rightarrow> Some f)"
    unfolding validate_request_empty_deductions
    by (cases "validate_scalars P req"; cases "earnings_check P req";
        simp add: validate_request_def deductions_check_absent[OF a])
  then obtain f where f: "validate_request P req = Some f"
    by (cases "validate_request P (req\<lparr>deductions := Arr []\<rparr>)") auto
  note p = post_payslips_failed_validation[OF f, of others now s]
  show "fst (post_payslips P others now s req) = s" using p by simp
  show "status (snd (post_payslips P others now s req)) \<noteq> 201"
    using post_payslips_status_201[of P others now s req] f by auto
  show "post_payslips P others now s req = (s, internal_error (NotIterable ''deductions''))"
    if "validate_request P (req\<lparr>deductions := Arr []\<rparr>) = None"
    using that v by (simp add: post_payslips_failed_validation)
  show "validate_request P req = Some g"
    if "validate_request P (req\<lparr>deductions := Arr []\<rparr>) = Some g" for g
    using that v by simp
  have nd: "r \<noteq> bad_request (''Invalid deduction component name: '' @ c)
          \<and> r \<noteq> bad_request (''Invalid deduction amount for '' @ c)"
    if "validate_request P req = Some (Reject r)" for r
  proof -
    from validate_request_cases[OF that] deductions_check_absent[OF a, of P]
    consider "validate_scalars P req = Some (Reject r)" | "earnings_check P req = Some (Reject r)"
      by auto
    then show ?thesis
    proof cases
      case 1
      from validate_scalars_Reject[OF 1] show ?thesis
        by (auto simp: scalar_messages_def bad_request_def)
    next
      case 2
      from earnings_check_Reject[OF 2] show ?thesis
        by (auto simp: bad_request_def)
    qed
  qed
  show "snd (post_payslips P others now s req)
          \<noteq> bad_request (''Invalid deduction component name: '' @ c)"
    using p nd f by (cases f) (auto simp: internal_error_def bad_request_def)
  show "snd (post_payslips P others now s req)
          \<noteq> bad_request (''Invalid deduction amount for '' @ c)"
    using p nd f by (cases f) (auto simp: internal_error_def bad_request_def)
next
  assume "status (snd (post_payslips P others now s req)) = 201"
  from post_payslips_status_201[OF this]
  have d: "deductions_check P req = None" by (simp add: validate_request_None)
  show "(\<exists>ds. deductions req = Arr ds) \<or> deductions req = Str []"
  proof (cases "deductions req")
    case (Str t)
    with d show ?thesis
      by (cases t) (auto simp: deductions_check_def iterate_def get_property_def
          validateComponentName_of_def validateAlphabeticWithSpaces_of_def)
  qed (use d in \<open>auto simp: deductions_check_def iterate_def\<close>)
qed

theorem missing_deductions_witness:
  "create sample_platform ''2024-02-01T09:00:00.000Z'' empty_db
      (sample_request\<lparr>deductions := Undefined\<rparr>)
     = (empty_db, Response 500 (InternalBody (NotIterable ''deductions'')))
   \<and> ((\<exists>ds. deductions sample_request = Arr ds) \<or> deductions sample_request = Str [])"
proof -
  define r where "r = sample_request\<lparr>deductions := Undefined\<rparr>"
  have v: "validate_request sample_platform (r\<lparr>deductions := Arr []\<rparr>) = None"
    using sample_empty_deductions by (simp add: r_def)
  have d: "deductions r = Undefined" by (simp add: r_def)
  have c: "status (snd (post_payslips sample_platform (\<lambda>s. s) ''2024-02-01T09:00:00.000Z''
      empty_db sample_request)) = 201"
    using create_sample by (simp add: create_def)
  from missing_deductions [of r sample_platform "\<lambda>s. s" "''2024-02-01T09:00:00.000Z''" empty_db
      "''Tax''"] v d
  have 1: "create sample_platform ''2024-02-01T09:00:00.000Z'' empty_db r
     = (empty_db, Response 500 (InternalBody (NotIterable ''deductions'')))"
    by (simp add: create_def[symmetric] internal_error_def)
  from missing_deductions [of sample_request sample_platform "\<lambda>s. s"
      "''2024-02-01T09:00:00.000Z''" empty_db "''Tax''"] c
  have 2: "(\<exists>ds. deductions sample_request = Arr ds) \<or> deductions sample_request = Str []"
    by simp
  from 1 2 show ?thesis by (simp add: r_def)
qed

section \<open>Properties of the lookups and of the deletion\<close>

lemma filter_row_id_absent:
  "\<forall>r \<in> set rs. row_id r \<noteq> i \<Longrightarrow> filter (\<lambda>r. row_id r \<noteq> i) rs = rs"
  by (induction rs) auto

lemma int4_out_of_range: "int4_in ''2147483648'' = Inl IntegerOutOfRange"
  by code_simp

lemma int4_one: "int4_in ''1'' = Inr 1"
  by code_simp

lemma int4_seven: "int4_in ''7'' = Inr 7"
  by code_simp

lemma int4_word: "int4_in ''abc'' = Inl InvalidInteger"
  by code_simp

text \<open>
  Claim C9 as stated promises the not-found response for every id that no record has.
  The id is the text of the path, and the storage reads it as a 32-bit integer: for
  \<^verbatim>\<open>2147483648\<close>, which no record has, the statement fails and the response is the
  internal failure with status 500.
\<close>

theorem delete_out_of_range_counterexample:
  "db_select_id one_row_db 2147483648 = []
   \<and> delete_payslip one_row_db ''2147483648''
     = (one_row_db, Response 500 (InternalBody (DatabaseError IntegerOutOfRange)))
   \<and> Response 500 (InternalBody (DatabaseError IntegerOutOfRange)) \<noteq> not_found ''Payslip not found''"
  by (simp add: delete_payslip_def int4_out_of_range internal_error_def not_found_def
      db_select_id_def one_row_db_def sample_row_def)

text \<open>
  Claim C9, amended. For every stored state and every id text that the storage reads as
  a 32-bit integer: deleting an id that no row has returns the not-found response and
  leaves the storage unchanged; deleting an id that a row has succeeds, removes the rows
  with that id and no other, and a lookup of the same id afterwards returns the
  not-found response. For every other id text (not a number, or out of the range) the
  deletion is answered with the internal failure of the storage error, and the storage
  is unchanged.
\<close>

theorem delete_by_id:
  "(\<forall>i. int4_in ident = Inr i \<longrightarrow>
      ((\<forall>r \<in> set (rows s). row_id r \<noteq> i)
         \<longrightarrow> delete_payslip s ident = (s, not_found ''Payslip not found''))
    \<and> ((\<exists>r \<in> set (rows s). row_id r = i)
         \<longrightarrow> snd (delete_payslip s ident)
               = Response 200 (MessageBody ''Payslip deleted successfully'')
           \<and> fst (delete_payslip s ident) = s\<lparr>rows := filter (\<lambda>r. row_id r \<noteq> i) (rows s)\<rparr>
           \<and> get_payslip_by_id (fst (delete_payslip s ident)) ident
               = not_found ''Payslip not found''))
   \<and> (\<forall>e. int4_in ident = Inl e \<longrightarrow>
        delete_payslip s ident = (s, internal_error (DatabaseError e)))"
proof (intro conjI impI allI)
  fix i
  assume i: "int4_in ident = Inr i" and a: "\<forall>r \<in> set (rows s). row_id r \<noteq> i"
  then have "filter (\<lambda>r. row_id r = i) (rows s) = []"
    by (simp add: filter_empty_conv)
  with filter_row_id_absent[OF a] i
  show "delete_payslip s ident = (s, not_found ''Payslip not found'')"
    by (simp add: delete_payslip_def db_delete_def)
next
  fix i
  assume i: "int4_in ident = Inr i" and a: "\<exists>r \<in> set (rows s). row_id r = i"
  then have n: "filter (\<lambda>r. row_id r = i) (rows s) \<noteq> []"
    by (simp add: filter_empty_conv)
  from n i show "snd (delete_payslip s ident)
      = Response 200 (MessageBody ''Payslip deleted successfully'')"
    by (simp add: delete_payslip_def db_delete_def)
  from n i show f: "fst (delete_payslip s ident)
      = s\<lparr>rows := filter (\<lambda>r. row_id r \<noteq> i) (rows s)\<rparr>"
    by (simp add: delete_payslip_def db_delete_def)
  have "filter (\<lambda>r. row_id r = i) (filter (\<lambda>r. row_id r \<noteq> i) (rows s)) = []"
    by (simp add: filter_empty_conv)
  with i show "get_payslip_by_id (fst (delete_payslip s ident)) ident
      = not_found ''Payslip not found''"
    by (simp add: f get_payslip_by_id_def db_select_id_def)
next
  fix e
  assume "int4_in ident = Inl e"
  then show "delete_payslip s ident = (s, internal_error (DatabaseError e))"
    by (simp add: delete_payslip_def)
qed

theorem delete_by_id_witness:
  "delete_payslip one_row_db ''7'' = (one_row_db, not_found ''Payslip not found'')
   \<and> delete_payslip one_row_db ''1''
       = (one_row_db\<lparr>rows := []\<rparr>, Response 200 (MessageBody ''Payslip deleted successfully''))
   \<and> get_payslip_by_id one_row_db ''1'' = Response 200 (RowBody sample_row)
   \<and> get_payslip_by_id (fst (delete_payslip one_row_db ''1'')) ''1''
       = not_found ''Payslip not found''

   \<and> delete_payslip one_row_db ''abc'' = (one_row_db, internal_error (DatabaseError InvalidInteger))"
proof -
  have g: "get_payslip_by_id one_row_db ''1'' = Response 200 (RowBody sample_row)"
    by (simp add: get_payslip_by_id_def db_select_id_def one_row_db_def sample_row_def int4_one)
  from delete_by_id [of "''7''" one_row_db] int4_seven
  have 1: "delete_payslip one_row_db ''7'' = (one_row_db, not_found ''Payslip not found'')"
    by (simp add: one_row_db_def sample_row_def)
  from delete_by_id [of "''1''" one_row_db] int4_one
  have 2: "delete_payslip one_row_db ''1''
       = (one_row_db\<lparr>rows := []\<rparr>, Response 200 (MessageBody ''Payslip deleted successfully''))
     \<and> get_payslip_by_id (fst (delete_payslip one_row_db ''1'')) ''1''
       = not_found ''Payslip not found''"
    by (cases "delete_payslip one_row_db ''1''") (simp add: one_row_db_def sample_row_def)
  from delete_by_id [of "''abc''" one_row_db] int4_word
  have 3: "delete_payslip one_row_db ''abc''
      = (one_row_db, internal_error (DatabaseError InvalidInteger))"
    by simp
  from 1 2 3 g show ?thesis by auto
qed

subsection \<open>The constraints of the schema hold in every state the handlers reach\<close>





lemma db_delete_wf: "db_wf s \<Longrightarrow> db_wf (fst (db_delete s i))"
  by (auto simp: db_wf_def db_delete_def list_all_iff distinct_map_filter)

lemma delete_payslip_wf:
  assumes "db_wf s"
  shows "db_wf (fst (delete_payslip s ident))"
proof (cases "int4_in ident")
  case (Inl e)
  with assms show ?thesis by (simp add: delete_payslip_def)
next
  case (Inr i)
  with db_delete_wf[OF assms, of i] show ?thesis
    by (cases "db_delete s i") (simp add: delete_payslip_def)
qed



subsection \<open>The pattern of the lookup by employee and period\<close>



























end
